theory Spec2Isabelle
  imports Complex_Main
begin

section \<open>Data model\<close>

text \<open>
  The program (\<^verbatim>\<open>src/jira-import-app/app.py\<close>) is a three-stage pipeline over pandas
  DataFrames: \<^verbatim>\<open>preprocess\<close>, \<^verbatim>\<open>dataframeprocess\<close>, \<^verbatim>\<open>postprocess\<close>, chained by
  \<^verbatim>\<open>preprocess_file\<close>.

  A cell of a DataFrame is a missing value (\<^verbatim>\<open>NaN\<close>, what \<^verbatim>\<open>read_csv\<close> produces for an
  empty field), a number or a string.  Numbers are Python ints and float64 values; they are
  modelled as exact rationals, so the arithmetic of the model is exact where the program's
  is IEEE double arithmetic.  Non-finite floats have no counterpart in the model.
\<close>

datatype val = NaN | Num rat | Str string

text \<open>
  A DataFrame is its list of column labels and its rows in order, each row holding one cell
  per column.  The row index is the position in the list: every frame of the pipeline
  carries the index \<^verbatim>\<open>0..n-1\<close> (\<^verbatim>\<open>read_csv\<close>, \<^verbatim>\<open>reset_index(drop=True)\<close>,
  \<^verbatim>\<open>concat(ignore_index=True)\<close>).
\<close>

record frame =
  columns :: "string list"
  rows :: "val list list"

text \<open>
  Every exception the three stages can raise.  The first five are the \<^verbatim>\<open>ValueError\<close>s of the
  source, named after what they report: the three \<^verbatim>\<open>raise\<close> statements of \<^verbatim>\<open>preprocess\<close>,
  the two of \<^verbatim>\<open>dataframeprocess\<close> (\<open>MissingColumnError\<close> is raised by both stages,
  \<open>OrphanStoryError\<close> carries the row index of the message), and the \<^verbatim>\<open>ValueError\<close> of
  \<^verbatim>\<open>float(...)\<close> on a string that is not a number.  \<open>KeyError\<close> is a failed dictionary
  lookup and \<open>IntCastingNaNError\<close> the failure of \<^verbatim>\<open>astype(int)\<close> on a missing value.
\<close>

datatype error =
    EmptyInputError
  | MissingColumnError
  | MissingSentinelError
  | OrphanStoryError nat
  | InvalidEstimateError
  | KeyError
  | IntCastingNaNError

text \<open>\<^verbatim>\<open>row[c]\<close>: the cell of a row under the column label \<open>c\<close>.  All uses in the source are
  guarded by a check that the label is a column; a label that is absent reads as \<open>NaN\<close>.\<close>

definition cell :: "string list \<Rightarrow> val list \<Rightarrow> string \<Rightarrow> val" where
  "cell cs r c = (case map_of (zip cs r) c of Some v \<Rightarrow> v | None \<Rightarrow> NaN)"

text \<open>\<^verbatim>\<open>pd.notna(v)\<close>\<close>

definition notna :: "val \<Rightarrow> bool" where
  "notna v = (v \<noteq> NaN)"

text \<open>Sequencing of a computation that may raise.\<close>

definition bind_err :: "error + 'a \<Rightarrow> ('a \<Rightarrow> error + 'b) \<Rightarrow> error + 'b" where
  "bind_err m f = (case m of Inl e \<Rightarrow> Inl e | Inr x \<Rightarrow> f x)"

text \<open>A loop that computes one result for each element of a list, in order, and stops at the
  first exception.\<close>

fun map_err :: "('a \<Rightarrow> error + 'b) \<Rightarrow> 'a list \<Rightarrow> error + 'b list" where
  "map_err f [] = Inr []"
| "map_err f (x # xs) = bind_err (f x) (\<lambda>y. bind_err (map_err f xs) (\<lambda>ys. Inr (y # ys)))"

section \<open>Stage 1: \<^verbatim>\<open>preprocess\<close>\<close>

text \<open>\<^verbatim>\<open>if c in data.columns: data.drop(columns=[c], inplace=True)\<close>\<close>

definition drop_column :: "string \<Rightarrow> frame \<Rightarrow> frame" where
  "drop_column c data =
     \<lparr>columns = filter (\<lambda>k. k \<noteq> c) (columns data),
      rows = map (\<lambda>r. map snd (filter (\<lambda>(k, v). k \<noteq> c) (zip (columns data) r))) (rows data)\<rparr>"

definition placeholder_columns :: "string list" where
  "placeholder_columns = [''Unnamed: 3'', ''Unnamed: 5'', ''Unnamed: 7'']"

text \<open>\<^verbatim>\<open>data.iloc[:, :6]\<close>\<close>

definition first_six :: "frame \<Rightarrow> frame" where
  "first_six data = \<lparr>columns = take 6 (columns data), rows = map (take 6) (rows data)\<rparr>"

text \<open>\<^verbatim>\<open>data.dropna(how="all")\<close>: a row goes when every cell of it is missing.\<close>

definition dropna_all :: "frame \<Rightarrow> frame" where
  "dropna_all data = data\<lparr>rows := filter (\<lambda>r. \<not> list_all (\<lambda>v. v = NaN) r) (rows data)\<rparr>"

text \<open>Lines 28 to 38 of the source: the first row goes, then the placeholder columns, then
  every column after the sixth, then the empty rows.  \<^verbatim>\<open>reset_index(drop=True)\<close> renumbers the
  rows, which the list model does by itself.\<close>

definition cleanup :: "frame \<Rightarrow> frame" where
  "cleanup data =
     dropna_all (first_six (fold drop_column placeholder_columns (data\<lparr>rows := drop 1 (rows data)\<rparr>)))"

text \<open>\<^verbatim>\<open>data[data["EPIC"] == "END"].index[0]\<close>, the position of the first sentinel row.\<close>

definition is_end :: "string list \<Rightarrow> val list \<Rightarrow> bool" where
  "is_end cs r = (cell cs r ''EPIC'' = Str ''END'')"

definition end_index :: "frame \<Rightarrow> nat" where
  "end_index data = length (takeWhile (\<lambda>r. \<not> is_end (columns data) r) (rows data))"

definition preprocess :: "frame \<Rightarrow> error + frame" where
  "preprocess data =
     (if columns data = [] \<or> rows data = [] \<or> length (rows data) < 2 then Inl EmptyInputError
      else let data = cleanup data in
        if ''EPIC'' \<notin> set (columns data) then Inl MissingColumnError
        else if list_ex (is_end (columns data)) (rows data)
          then Inr (data\<lparr>rows := take (end_index data) (rows data)\<rparr>)
          else Inl MissingSentinelError)"

section \<open>Stage 2: \<^verbatim>\<open>dataframeprocess\<close>\<close>

definition required_cols :: "string list" where
  "required_cols = [''EPIC'', ''SUMMARY'', ''IOS'', ''AND'', ''SERV'', ''NOTES'']"

text \<open>The value of \<^verbatim>\<open>epic_components_tracker[name]\<close>: a dictionary with the three keys
  \<^verbatim>\<open>"Android"\<close>, \<^verbatim>\<open>"iOS"\<close> and \<^verbatim>\<open>"Server"\<close>.\<close>

record epic_flags =
  android :: bool
  ios :: bool
  server :: bool

text \<open>One element of \<^verbatim>\<open>data_rows\<close>: a dictionary with the seven keys \<^verbatim>\<open>"Issue Type"\<close>,
  \<^verbatim>\<open>"Epic Name"\<close>, \<^verbatim>\<open>"Epic Link"\<close>, \<^verbatim>\<open>"Summary"\<close>, \<^verbatim>\<open>"Description"\<close>, \<^verbatim>\<open>"Components"\<close>
  and \<^verbatim>\<open>"Original Estimate"\<close>, inserted in this order.\<close>

record data_row =
  issue_type :: val
  epic_name :: val
  epic_link :: val
  summary :: val
  description :: val
  components :: val
  original_estimate :: val

text \<open>The variables the loop of \<^verbatim>\<open>dataframeprocess\<close> updates.  The two dictionaries are
  keyed by the value of the \<^verbatim>\<open>EPIC\<close> cell; the running sum starts at the int \<^verbatim>\<open>0\<close>.\<close>

record expander_state =
  current_epic_name :: val
  epic_estimates :: "val \<rightharpoonup> rat"
  epic_components_tracker :: "val \<rightharpoonup> epic_flags"
  data_rows :: "data_row list"

text \<open>Python's truth value of a cell value, as \<^verbatim>\<open>not current_epic_name\<close> tests it: the
  empty string and the number zero are false.\<close>

definition py_bool :: "val \<Rightarrow> bool" where
  "py_bool v = (v \<noteq> Str [] \<and> v \<noteq> Num 0)"

text \<open>\<^verbatim>\<open>float(v)\<close>.  The parser of Python's \<^verbatim>\<open>float\<close> on a string is the parameter \<open>pf\<close>:
  \<open>None\<close> where it raises \<^verbatim>\<open>ValueError\<close>.  The pipeline never applies \<^verbatim>\<open>float\<close> to a
  missing value in \<^verbatim>\<open>dataframeprocess\<close>; in \<^verbatim>\<open>postprocess\<close> a missing value would stay
  missing until \<^verbatim>\<open>astype(int)\<close> refuses it, which the model reports at once.\<close>

definition py_float :: "(string \<Rightarrow> rat option) \<Rightarrow> val \<Rightarrow> error + rat" where
  "py_float pf v =
     (case v of
        Num x \<Rightarrow> Inr x
      | Str s \<Rightarrow> (case pf s of Some x \<Rightarrow> Inr x | None \<Rightarrow> Inl InvalidEstimateError)
      | NaN \<Rightarrow> Inl IntCastingNaNError)"

text \<open>The dictionary appended for a story of one platform (lines 119 to 127, 134 to 142 and
  149 to 157).\<close>

definition story_record :: "string list \<Rightarrow> val \<Rightarrow> val list \<Rightarrow> string \<Rightarrow> string \<Rightarrow> data_row" where
  "story_record cs cur row col tag =
     \<lparr>issue_type = Str ''Story'', epic_name = Str [], epic_link = cur,
      summary = cell cs row ''SUMMARY'', description = cell cs row ''NOTES'',
      components = Str tag, original_estimate = cell cs row col\<rparr>"

text \<open>The dictionary appended for an epic (lines 97 to 105).\<close>

definition epic_record :: "string list \<Rightarrow> val list \<Rightarrow> data_row" where
  "epic_record cs row =
     \<lparr>issue_type = Str ''Epic'', epic_name = cell cs row ''EPIC'', epic_link = Str [],
      summary = cell cs row ''SUMMARY'', description = cell cs row ''NOTES'',
      components = Str [], original_estimate = Str []\<rparr>"

text \<open>One of the three blocks of a story row (\<^verbatim>\<open># Server\<close>, \<^verbatim>\<open># iOS\<close>, \<^verbatim>\<open># Android\<close>): when
  the platform's cell is present, set the platform's flag of the current epic, append the
  cell as a float to \<^verbatim>\<open>story_estimates\<close>, append the story's dictionary.\<close>

definition platform_block ::
  "(string \<Rightarrow> rat option) \<Rightarrow> string list \<Rightarrow> val list \<Rightarrow> string \<Rightarrow> string \<Rightarrow>
   (epic_flags \<Rightarrow> epic_flags) \<Rightarrow> expander_state \<times> rat list \<Rightarrow> error + expander_state \<times> rat list" where
  "platform_block pf cs row col tag mark p =
     (case p of (st, story_estimates) \<Rightarrow>
        if notna (cell cs row col) then
          (case epic_components_tracker st (current_epic_name st) of
             None \<Rightarrow> Inl KeyError
           | Some fl \<Rightarrow>
               bind_err (py_float pf (cell cs row col)) (\<lambda>x.
                 Inr (st\<lparr>epic_components_tracker :=
                            (epic_components_tracker st)(current_epic_name st \<mapsto> mark fl),
                          data_rows :=
                            data_rows st @ [story_record cs (current_epic_name st) row col tag]\<rparr>,
                      story_estimates @ [x])))
        else Inr (st, story_estimates))"

text \<open>The body of the loop, for the row \<open>row\<close> at index \<open>index\<close>.\<close>

definition process_row ::
  "(string \<Rightarrow> rat option) \<Rightarrow> string list \<Rightarrow> nat \<Rightarrow> val list \<Rightarrow> expander_state \<Rightarrow> error + expander_state" where
  "process_row pf cs index row st =
     (if notna (cell cs row ''EPIC'') then
        Inr (st\<lparr>current_epic_name := cell cs row ''EPIC'',
                epic_estimates := (epic_estimates st)(cell cs row ''EPIC'' \<mapsto> 0),
                epic_components_tracker :=
                  (epic_components_tracker st)(cell cs row ''EPIC'' \<mapsto>
                     \<lparr>android = False, ios = False, server = False\<rparr>),
                data_rows := data_rows st @ [epic_record cs row]\<rparr>)
      else if notna (cell cs row ''SUMMARY'') then
        if \<not> py_bool (current_epic_name st) then Inl (OrphanStoryError index)
        else
          bind_err (platform_block pf cs row ''SERV'' ''Server'' (\<lambda>fl. fl\<lparr>server := True\<rparr>) (st, [])) (\<lambda>p1.
          bind_err (platform_block pf cs row ''IOS'' ''iOS'' (\<lambda>fl. fl\<lparr>ios := True\<rparr>) p1) (\<lambda>p2.
          bind_err (platform_block pf cs row ''AND'' ''Android'' (\<lambda>fl. fl\<lparr>android := True\<rparr>) p2) (\<lambda>p3.
            case p3 of (st', story_estimates) \<Rightarrow>
              (case epic_estimates st' (current_epic_name st') of
                 None \<Rightarrow> Inl KeyError
               | Some e \<Rightarrow>
                   Inr (st'\<lparr>epic_estimates :=
                              (epic_estimates st')(current_epic_name st' \<mapsto> e + sum_list story_estimates)\<rparr>)))))
      else Inr st)"

text \<open>\<^verbatim>\<open>for index, row in data.iterrows()\<close>, from the index \<open>index\<close> on.\<close>

fun iterrows :: "(string \<Rightarrow> rat option) \<Rightarrow> string list \<Rightarrow> nat \<Rightarrow> val list list \<Rightarrow> expander_state \<Rightarrow> error + expander_state" where
  "iterrows pf cs index [] st = Inr st"
| "iterrows pf cs index (row # rs) st =
     bind_err (process_row pf cs index row st) (iterrows pf cs (Suc index) rs)"

definition initial_state :: expander_state where
  "initial_state =
     \<lparr>current_epic_name = Str [], epic_estimates = Map.empty,
      epic_components_tracker = Map.empty, data_rows = []\<rparr>"

definition output_columns :: "string list" where
  "output_columns =
     [''Issue Type'', ''Epic Name'', ''Epic Link'', ''Summary'', ''Description'', ''Components'',
      ''Original Estimate'']"

text \<open>The row of \<^verbatim>\<open>pd.DataFrame(data_rows)\<close> for one dictionary: its values in key order.\<close>

definition row_values :: "data_row \<Rightarrow> val list" where
  "row_values d =
     [issue_type d, epic_name d, epic_link d, summary d, description d, components d,
      original_estimate d]"

text \<open>\<^verbatim>\<open>pd.concat([final_data, pd.DataFrame(data_rows)], ignore_index=True)\<close>, where
  \<^verbatim>\<open>final_data\<close> is the empty frame with the seven columns: the seven columns, in the order
  of the list \<^verbatim>\<open>columns\<close> (which is the key order of every dictionary), and one row for each
  dictionary.\<close>

definition concat_final :: "data_row list \<Rightarrow> frame" where
  "concat_final ds = \<lparr>columns = output_columns, rows = map row_values ds\<rparr>"

definition dataframeprocess ::
  "(string \<Rightarrow> rat option) \<Rightarrow> frame \<Rightarrow> error + frame \<times> (val \<rightharpoonup> rat) \<times> (val \<rightharpoonup> epic_flags)" where
  "dataframeprocess pf data =
     (if \<not> set required_cols \<subseteq> set (columns data) then Inl MissingColumnError
      else bind_err (iterrows pf (columns data) 0 (rows data) initial_state) (\<lambda>st.
        Inr (concat_final (data_rows st), epic_estimates st, epic_components_tracker st)))"

section \<open>Stage 3: \<^verbatim>\<open>postprocess\<close>\<close>

text \<open>\<^verbatim>\<open>final_data.at[index, c] = v\<close> on the row at \<open>index\<close>.\<close>

definition set_cell :: "string list \<Rightarrow> val list \<Rightarrow> string \<Rightarrow> val \<Rightarrow> val list" where
  "set_cell cs r c v = map (\<lambda>(k, x). if k = c then v else x) (zip cs r)"

text \<open>\<^verbatim>\<open>final_data[c]\<close> and \<^verbatim>\<open>final_data[c] = vs\<close>: assigning to a label that is not a column
  appends a new last column.\<close>

definition get_column :: "string \<Rightarrow> frame \<Rightarrow> val list" where
  "get_column c data = map (\<lambda>r. cell (columns data) r c) (rows data)"

definition set_column :: "string \<Rightarrow> val list \<Rightarrow> frame \<Rightarrow> frame" where
  "set_column c vs data =
     (if c \<in> set (columns data)
      then \<lparr>columns = columns data,
            rows = map (\<lambda>(r, v). set_cell (columns data) r c v) (zip (rows data) vs)\<rparr>
      else \<lparr>columns = columns data @ [c], rows = map (\<lambda>(r, v). r @ [v]) (zip (rows data) vs)\<rparr>)"

text \<open>Lines 174 to 176, for one row: an Epic row whose name is a key of \<^verbatim>\<open>epic_estimates\<close>
  gets the sum stored there.\<close>

definition update_epic_estimate :: "string list \<Rightarrow> (val \<rightharpoonup> rat) \<Rightarrow> val list \<Rightarrow> val list" where
  "update_epic_estimate cs est row =
     (if cell cs row ''Issue Type'' = Str ''Epic'' then
        (case est (cell cs row ''Epic Name'') of
           Some e \<Rightarrow> set_cell cs row ''Original Estimate'' (Num e)
         | None \<Rightarrow> row)
      else row)"

text \<open>Lines 179 to 183: every estimate as a float, the empty string as zero.  The result is
  the column \<^verbatim>\<open>"Original Estimate"\<close> in days, before the conversion to seconds.\<close>

definition float_estimate :: "(string \<Rightarrow> rat option) \<Rightarrow> string list \<Rightarrow> val list \<Rightarrow> error + rat" where
  "float_estimate pf cs row =
     py_float pf (let v = cell cs row ''Original Estimate'' in if v = Str [] then Num 0 else v)"

definition float_estimates :: "(string \<Rightarrow> rat option) \<Rightarrow> string list \<Rightarrow> val list list \<Rightarrow> error + rat list" where
  "float_estimates pf cs rs = map_err (float_estimate pf cs) rs"

text \<open>Lines 186 to 191 on one value: times 8, times 3600, then \<^verbatim>\<open>.round().astype(int)\<close>.
  What pandas does to one value there is the parameter \<open>rnd\<close>.\<close>

definition to_seconds :: "(rat \<Rightarrow> int) \<Rightarrow> rat \<Rightarrow> val" where
  "to_seconds rnd x = Num (of_int (rnd (x * 8 * 3600)))"

text \<open>Lines 198 to 206: the three component columns of the Epic rows.\<close>

definition epic_components :: "string list \<Rightarrow> (val \<rightharpoonup> epic_flags) \<Rightarrow> val list \<Rightarrow> error + val list" where
  "epic_components cs trk row =
     (if cell cs row ''Issue Type'' = Str ''Epic'' then
        (case trk (cell cs row ''Epic Name'') of
           None \<Rightarrow> Inl KeyError
         | Some fl \<Rightarrow>
             Inr (set_cell cs
                   (set_cell cs
                     (set_cell cs row ''Components'' (Str (if android fl then ''Android'' else [])))
                     ''Components 1'' (Str (if ios fl then ''iOS'' else [])))
                   ''Components 2'' (Str (if server fl then ''Server'' else []))))
      else Inr row)"

definition epic_components_rows :: "string list \<Rightarrow> (val \<rightharpoonup> epic_flags) \<Rightarrow> val list list \<Rightarrow> error + val list list" where
  "epic_components_rows cs trk rs = map_err (epic_components cs trk) rs"

definition postprocess ::
  "(rat \<Rightarrow> int) \<Rightarrow> (string \<Rightarrow> rat option) \<Rightarrow> frame \<Rightarrow> (val \<rightharpoonup> rat) \<Rightarrow> (val \<rightharpoonup> epic_flags) \<Rightarrow> error + frame" where
  "postprocess rnd pf final_data est trk =
     (let d1 = final_data\<lparr>rows := map (update_epic_estimate (columns final_data) est) (rows final_data)\<rparr>
      in bind_err (float_estimates pf (columns d1) (rows d1)) (\<lambda>days.
        let d2 = set_column ''Original Estimate'' (map (to_seconds rnd) days) d1;
            d3 = set_column ''Components 1'' (get_column ''Components'' d2) d2;
            d4 = set_column ''Components 2'' (get_column ''Components'' d3) d3
        in bind_err (epic_components_rows (columns d4) trk (rows d4)) (\<lambda>rs. Inr (d4\<lparr>rows := rs\<rparr>))))"

section \<open>The pipeline\<close>

text \<open>\<^verbatim>\<open>preprocess_file\<close> between \<^verbatim>\<open>read_csv\<close> and \<^verbatim>\<open>to_csv\<close>: the frame read from the upload
  goes through the three stages, and the result is the frame written out.  An exception of
  a stage leaves \<^verbatim>\<open>preprocess_file\<close> before \<^verbatim>\<open>to_csv\<close> is reached, so \<open>Inl\<close> means that no
  output file is written.\<close>

definition preprocess_file :: "(rat \<Rightarrow> int) \<Rightarrow> (string \<Rightarrow> rat option) \<Rightarrow> frame \<Rightarrow> error + frame" where
  "preprocess_file rnd pf data =
     bind_err (preprocess data) (\<lambda>data.
     bind_err (dataframeprocess pf data) (\<lambda>(final_data, epic_estimates, epic_components_tracker).
       postprocess rnd pf final_data epic_estimates epic_components_tracker))"

section \<open>Example inputs\<close>

text \<open>The worked example of the specification: the instruction row that \<^verbatim>\<open>preprocess\<close>
  drops, one epic, one story with a Server and an iOS estimate, the sentinel row.\<close>

definition example_input :: frame where
  "example_input =
     \<lparr>columns = [''EPIC'', ''SUMMARY'', ''IOS'', ''AND'', ''SERV'', ''NOTES''],
      rows = [[NaN, Str ''As a user I need to'', NaN, NaN, NaN, NaN],
              [Str ''E1'', Str ''s1'', NaN, NaN, NaN, NaN],
              [NaN, Str ''story1'', Num 1, NaN, Num 2, NaN],
              [Str ''END'', NaN, NaN, NaN, NaN, NaN]]\<rparr>"

text \<open>The worked example without its sentinel row, and with the sentinel as the first row
  after the instruction row.\<close>

definition no_sentinel_input :: frame where
  "no_sentinel_input =
     \<lparr>columns = [''EPIC'', ''SUMMARY'', ''IOS'', ''AND'', ''SERV'', ''NOTES''],
      rows = [[NaN, Str ''As a user I need to'', NaN, NaN, NaN, NaN],
              [Str ''E1'', Str ''s1'', NaN, NaN, NaN, NaN],
              [NaN, Str ''story1'', Num 1, NaN, Num 2, NaN]]\<rparr>"

definition sentinel_first_input :: frame where
  "sentinel_first_input =
     \<lparr>columns = [''EPIC'', ''SUMMARY'', ''IOS'', ''AND'', ''SERV'', ''NOTES''],
      rows = [[NaN, Str ''As a user I need to'', NaN, NaN, NaN, NaN],
              [Str ''END'', NaN, NaN, NaN, NaN, NaN],
              [Str ''E1'', Str ''s1'', NaN, NaN, NaN, NaN]]\<rparr>"

section \<open>Auxiliary predicates\<close>

text \<open>The two kinds of row the loop of \<^verbatim>\<open>dataframeprocess\<close> tells apart: the condition of
  its \<^verbatim>\<open>if\<close> and the condition of its \<^verbatim>\<open>elif\<close>.\<close>

definition is_epic_row :: "string list \<Rightarrow> val list \<Rightarrow> bool" where
  "is_epic_row cs row = notna (cell cs row ''EPIC'')"

definition is_story_row :: "string list \<Rightarrow> val list \<Rightarrow> bool" where
  "is_story_row cs row = (\<not> notna (cell cs row ''EPIC'') \<and> notna (cell cs row ''SUMMARY''))"

text \<open>No row of the frame is longer than the list of column labels.\<close>

definition fits :: "frame \<Rightarrow> bool" where
  "fits d = (\<forall>r\<in>set (rows d). length r \<le> length (columns d))"

text \<open>What a story row appends to \<^verbatim>\<open>data_rows\<close> when none of its cells fails to parse: the
  records of the three blocks, in the order of the blocks, each present when its cell is.\<close>

definition story_records :: "string list \<Rightarrow> val \<Rightarrow> val list \<Rightarrow> data_row list" where
  "story_records cs cur row =
     (if notna (cell cs row ''SERV'') then [story_record cs cur row ''SERV'' ''Server''] else []) @
     (if notna (cell cs row ''IOS'') then [story_record cs cur row ''IOS'' ''iOS''] else []) @
     (if notna (cell cs row ''AND'') then [story_record cs cur row ''AND'' ''Android''] else [])"

text \<open>\<^verbatim>\<open>float(v)\<close> returns, and what it returns.\<close>

definition parses :: "(string \<Rightarrow> rat option) \<Rightarrow> val \<Rightarrow> bool" where
  "parses pf v = (case py_float pf v of Inr x \<Rightarrow> True | Inl e \<Rightarrow> False)"

definition days :: "(string \<Rightarrow> rat option) \<Rightarrow> val \<Rightarrow> rat" where
  "days pf v = (case py_float pf v of Inr x \<Rightarrow> x | Inl e \<Rightarrow> 0)"

text \<open>Every platform cell of the row that is present parses; the sum of the present cells;
  the flags of the current epic after the row.\<close>

definition row_parses :: "(string \<Rightarrow> rat option) \<Rightarrow> string list \<Rightarrow> val list \<Rightarrow> bool" where
  "row_parses pf cs row =
     ((parses pf (cell cs row ''SERV'') \<or> \<not> notna (cell cs row ''SERV'')) \<and>
      (parses pf (cell cs row ''IOS'') \<or> \<not> notna (cell cs row ''IOS'')) \<and>
      (parses pf (cell cs row ''AND'') \<or> \<not> notna (cell cs row ''AND'')))"

definition row_days :: "(string \<Rightarrow> rat option) \<Rightarrow> string list \<Rightarrow> val list \<Rightarrow> rat" where
  "row_days pf cs row =
     (if notna (cell cs row ''SERV'') then days pf (cell cs row ''SERV'') else 0) +
     (if notna (cell cs row ''IOS'') then days pf (cell cs row ''IOS'') else 0) +
     (if notna (cell cs row ''AND'') then days pf (cell cs row ''AND'') else 0)"

definition row_flags :: "string list \<Rightarrow> val list \<Rightarrow> epic_flags \<Rightarrow> epic_flags" where
  "row_flags cs row fl =
     \<lparr>android = android fl \<or> notna (cell cs row ''AND''),
      ios = ios fl \<or> notna (cell cs row ''IOS''),
      server = server fl \<or> notna (cell cs row ''SERV'')\<rparr>"

text \<open>A story with a cell that is not a number before any epic; the same story after an
  epic; an epic with a story on all three platforms and a second story.\<close>

definition orphan_input :: frame where
  "orphan_input =
     \<lparr>columns = [''EPIC'', ''SUMMARY'', ''IOS'', ''AND'', ''SERV'', ''NOTES''],
      rows = [[NaN, Str ''As a user I need to'', NaN, NaN, NaN, NaN],
              [NaN, Str ''story0'', NaN, NaN, Str ''abc'', NaN],
              [Str ''E1'', Str ''s1'', NaN, NaN, NaN, NaN],
              [Str ''END'', NaN, NaN, NaN, NaN, NaN]]\<rparr>"

text \<open>The invariant of the loop that excludes a \<^verbatim>\<open>KeyError\<close>: a true current epic name is a
  key of both dictionaries.\<close>

definition keys_ok :: "expander_state \<Rightarrow> bool" where
  "keys_ok st =
     (\<not> py_bool (current_epic_name st) \<or>
      (current_epic_name st \<in> dom (epic_estimates st) \<and>
       current_epic_name st \<in> dom (epic_components_tracker st)))"

definition invalid_estimate_input :: frame where
  "invalid_estimate_input =
     \<lparr>columns = [''EPIC'', ''SUMMARY'', ''IOS'', ''AND'', ''SERV'', ''NOTES''],
      rows = [[NaN, Str ''As a user I need to'', NaN, NaN, NaN, NaN],
              [Str ''E1'', Str ''s1'', NaN, NaN, NaN, NaN],
              [NaN, Str ''story1'', NaN, NaN, Str ''abc'', NaN],
              [Str ''END'', NaN, NaN, NaN, NaN, NaN]]\<rparr>"

definition three_platform_table :: frame where
  "three_platform_table =
     \<lparr>columns = [''EPIC'', ''SUMMARY'', ''IOS'', ''AND'', ''SERV'', ''NOTES''],
      rows = [[Str ''E1'', Str ''s1'', NaN, NaN, NaN, NaN],
              [NaN, Str ''story1'', Num 1, Num 3, Num 2, Str ''n1''],
              [NaN, Str ''story2'', NaN, Num 5, NaN, NaN]]\<rparr>"

text \<open>
  The Row Expander as the specification words it (section 4.2), to be compared with the loop
  of the source: \<open>last_epic\<close> is the current epic name after a list of rows (the \<^verbatim>\<open>EPIC\<close> cell
  of the last Epic row, or the name before the rows when there is none); \<open>expand\<close> is the
  ordered sequence of output records (one Epic record for each Epic row, the records of each
  Story row under the current epic name, nothing for any other row); \<open>expander_ok\<close> says that
  every Story row has a true current epic name and platform cells that parse.
\<close>

fun last_epic :: "string list \<Rightarrow> val \<Rightarrow> val list list \<Rightarrow> val" where
  "last_epic cs cur [] = cur"
| "last_epic cs cur (row # rs) =
     last_epic cs (if is_epic_row cs row then cell cs row ''EPIC'' else cur) rs"

fun expand :: "string list \<Rightarrow> val \<Rightarrow> val list list \<Rightarrow> data_row list" where
  "expand cs cur [] = []"
| "expand cs cur (row # rs) =
     (if is_epic_row cs row then epic_record cs row # expand cs (cell cs row ''EPIC'') rs
      else if is_story_row cs row then story_records cs cur row @ expand cs cur rs
      else expand cs cur rs)"

fun expander_ok :: "(string \<Rightarrow> rat option) \<Rightarrow> string list \<Rightarrow> val \<Rightarrow> val list list \<Rightarrow> bool" where
  "expander_ok pf cs cur [] = True"
| "expander_ok pf cs cur (row # rs) =
     (if is_epic_row cs row then expander_ok pf cs (cell cs row ''EPIC'') rs
      else if is_story_row cs row then
        py_bool cur \<and> row_parses pf cs row \<and> expander_ok pf cs cur rs
      else expander_ok pf cs cur rs)"

text \<open>A row with only a note, an epic, a story with a cell that is not a number.\<close>

definition late_epic_input :: frame where
  "late_epic_input =
     \<lparr>columns = [''EPIC'', ''SUMMARY'', ''IOS'', ''AND'', ''SERV'', ''NOTES''],
      rows = [[NaN, Str ''As a user I need to'', NaN, NaN, NaN, NaN],
              [NaN, NaN, NaN, NaN, NaN, Str ''note''],
              [Str ''E1'', Str ''s1'', NaN, NaN, NaN, NaN],
              [NaN, Str ''story1'', NaN, NaN, Str ''abc'', NaN],
              [Str ''END'', NaN, NaN, NaN, NaN, NaN]]\<rparr>"














section \<open>Basic facts\<close>

lemmas stage1_defs = preprocess_def cleanup_def dropna_all_def first_six_def drop_column_def
  placeholder_columns_def end_index_def is_end_def cell_def

lemmas stage2_defs = dataframeprocess_def required_cols_def initial_state_def process_row_def
  platform_block_def story_record_def epic_record_def py_float_def py_bool_def notna_def
  concat_final_def row_values_def output_columns_def bind_err_def

lemmas stage3_defs = postprocess_def set_cell_def get_column_def set_column_def
  update_epic_estimate_def to_seconds_def epic_components_def float_estimates_def
  float_estimate_def epic_components_rows_def

lemma bind_err_Inr_iff: "bind_err m f = Inr y \<longleftrightarrow> (\<exists>x. m = Inr x \<and> f x = Inr y)"
  by (cases m) (simp_all add: bind_err_def)

lemma bind_err_Inl_iff: "bind_err m f = Inl e \<longleftrightarrow> m = Inl e \<or> (\<exists>x. m = Inr x \<and> f x = Inl e)"
  by (cases m) (simp_all add: bind_err_def)

lemma bind_err_simps [simp]: "bind_err (Inl e) f = Inl e" "bind_err (Inr x) f = f x"
  by (simp_all add: bind_err_def)

lemma take_length_takeWhile: "take (length (takeWhile P xs)) xs = takeWhile P xs"
  by (induction xs) simp_all

lemma take_end_index:
  "take (end_index data) (rows data) = takeWhile (\<lambda>r. \<not> is_end (columns data) r) (rows data)"
  unfolding end_index_def by (rule take_length_takeWhile)

lemma example_output:
  "preprocess_file round (\<lambda>s. None) example_input =
     Inr \<lparr>columns = [''Issue Type'', ''Epic Name'', ''Epic Link'', ''Summary'', ''Description'',
                     ''Components'', ''Original Estimate'', ''Components 1'', ''Components 2''],
          rows = [[Str ''Epic'', Str ''E1'', Str [], Str ''s1'', NaN, Str [], Num 86400, Str ''iOS'', Str ''Server''],
                  [Str ''Story'', Str [], Str ''E1'', Str ''story1'', NaN, Str ''Server'', Num 57600, Str ''Server'', Str ''Server''],
                  [Str ''Story'', Str [], Str ''E1'', Str ''story1'', NaN, Str ''iOS'', Num 28800, Str ''iOS'', Str ''iOS'']]\<rparr>"
  by (simp add: example_input_def preprocess_file_def stage1_defs stage2_defs stage3_defs)

section \<open>The worked example (C2)\<close>

text \<open>
  Claim C2.  The input of the worked example is the frame with the six columns \<^verbatim>\<open>EPIC\<close>,
  \<^verbatim>\<open>SUMMARY\<close>, \<^verbatim>\<open>IOS\<close>, \<^verbatim>\<open>AND\<close>, \<^verbatim>\<open>SERV\<close>, \<^verbatim>\<open>NOTES\<close> and four rows: any first row (it is
  dropped unseen), the epic \<^verbatim>\<open>E1\<close> with summary \<^verbatim>\<open>s1\<close>, a story with \<^verbatim>\<open>SERV = 2\<close> and
  \<^verbatim>\<open>IOS = 1\<close>, and the sentinel.  For every parser of strings, and every rounding that leaves
  the three integers 86400, 57600 and 28800 as they are, the pipeline returns exactly three
  records in this order: the Epic record of \<^verbatim>\<open>E1\<close> with estimate 86400 and the iOS and
  Server component columns set (the Android one empty), the Story record with component
  \<^verbatim>\<open>Server\<close> and estimate 57600, the Story record with component \<^verbatim>\<open>iOS\<close> and estimate
  28800.
\<close>

theorem C2_worked_example:
  assumes "rnd 86400 = 86400" "rnd 57600 = 57600" "rnd 28800 = 28800"
  shows "preprocess_file rnd pf
     \<lparr>columns = [''EPIC'', ''SUMMARY'', ''IOS'', ''AND'', ''SERV'', ''NOTES''],
      rows = [first_row,
              [Str ''E1'', Str ''s1'', NaN, NaN, NaN, NaN],
              [NaN, Str ''story1'', Num 1, NaN, Num 2, NaN],
              [Str ''END'', NaN, NaN, NaN, NaN, NaN]]\<rparr>
   = Inr \<lparr>columns = [''Issue Type'', ''Epic Name'', ''Epic Link'', ''Summary'', ''Description'',
                     ''Components'', ''Original Estimate'', ''Components 1'', ''Components 2''],
          rows = [[Str ''Epic'', Str ''E1'', Str [], Str ''s1'', NaN, Str [], Num 86400, Str ''iOS'', Str ''Server''],
                  [Str ''Story'', Str [], Str ''E1'', Str ''story1'', NaN, Str ''Server'', Num 57600, Str ''Server'', Str ''Server''],
                  [Str ''Story'', Str [], Str ''E1'', Str ''story1'', NaN, Str ''iOS'', Num 28800, Str ''iOS'', Str ''iOS'']]\<rparr>"
  using assms
  by (simp add: preprocess_file_def stage1_defs stage2_defs stage3_defs)

theorem C2_worked_example_witness:
  "round (86400 :: rat) = 86400 \<and> round (57600 :: rat) = 57600 \<and> round (28800 :: rat) = 28800 \<and>
   preprocess_file round (\<lambda>s. None)
     \<lparr>columns = [''EPIC'', ''SUMMARY'', ''IOS'', ''AND'', ''SERV'', ''NOTES''],
      rows = [[NaN, Str ''As a user I need to'', NaN, NaN, NaN, NaN],
              [Str ''E1'', Str ''s1'', NaN, NaN, NaN, NaN],
              [NaN, Str ''story1'', Num 1, NaN, Num 2, NaN],
              [Str ''END'', NaN, NaN, NaN, NaN, NaN]]\<rparr>
   = Inr \<lparr>columns = [''Issue Type'', ''Epic Name'', ''Epic Link'', ''Summary'', ''Description'',
                     ''Components'', ''Original Estimate'', ''Components 1'', ''Components 2''],
          rows = [[Str ''Epic'', Str ''E1'', Str [], Str ''s1'', NaN, Str [], Num 86400, Str ''iOS'', Str ''Server''],
                  [Str ''Story'', Str [], Str ''E1'', Str ''story1'', NaN, Str ''Server'', Num 57600, Str ''Server'', Str ''Server''],
                  [Str ''Story'', Str [], Str ''E1'', Str ''story1'', NaN, Str ''iOS'', Num 28800, Str ''iOS'', Str ''iOS'']]\<rparr>"
proof -
  have r: "round (86400 :: rat) = 86400" "round (57600 :: rat) = 57600" "round (28800 :: rat) = 28800"
    by simp_all
  show ?thesis
    using r C2_worked_example [OF r, of "\<lambda>s. None" "[NaN, Str ''As a user I need to'', NaN, NaN, NaN, NaN]"]
    by simp
qed

section \<open>The columns of the output (C3)\<close>

lemma dataframeprocess_columns:
  "dataframeprocess pf data = Inr (fd, est, trk) \<Longrightarrow> columns fd = output_columns"
  by (auto simp: dataframeprocess_def bind_err_Inr_iff concat_final_def split: if_splits)

lemma postprocess_columns:
  assumes "postprocess rnd pf fd est trk = Inr out" "columns fd = output_columns"
  shows "columns out = output_columns @ [''Components 1'', ''Components 2'']"
  using assms
  by (auto simp: postprocess_def Let_def bind_err_Inr_iff set_column_def output_columns_def)

text \<open>
  Claim C3, as the code has it.  Every successful conversion returns a table with exactly
  nine columns, in this order: Issue Type, Epic Name, Epic Link, Summary, Description,
  Components, Original Estimate, Components 1, Components 2.  The estimate is the seventh
  column: \<^verbatim>\<open>postprocess\<close> adds the two component columns by assignment, which appends them
  after the seven columns \<^verbatim>\<open>dataframeprocess\<close> created.
\<close>

theorem C3_output_columns:
  assumes "preprocess_file rnd pf data = Inr out"
  shows "columns out =
    [''Issue Type'', ''Epic Name'', ''Epic Link'', ''Summary'', ''Description'', ''Components'',
     ''Original Estimate'', ''Components 1'', ''Components 2'']"
proof -
  from assms obtain d fd est trk where
    "dataframeprocess pf d = Inr (fd, est, trk)" "postprocess rnd pf fd est trk = Inr out"
    by (auto simp: preprocess_file_def bind_err_Inr_iff)
  then have "columns out = output_columns @ [''Components 1'', ''Components 2'']"
    using dataframeprocess_columns postprocess_columns by blast
  then show ?thesis by (simp add: output_columns_def)
qed

theorem C3_output_columns_witness:
  "\<exists>out. preprocess_file round (\<lambda>s. None) example_input = Inr out \<and>
     columns out =
       [''Issue Type'', ''Epic Name'', ''Epic Link'', ''Summary'', ''Description'', ''Components'',
        ''Original Estimate'', ''Components 1'', ''Components 2'']"
  using C3_output_columns [of round "\<lambda>s. None" example_input] example_output by simp

text \<open>The order the claim states, with the estimate last, is not the order of the output:
  on the worked example the conversion succeeds and the columns differ from it.\<close>

theorem C3_claimed_order_counterexample:
  "\<exists>out. preprocess_file round (\<lambda>s. None) example_input = Inr out \<and>
     columns out \<noteq>
       [''Issue Type'', ''Epic Name'', ''Epic Link'', ''Summary'', ''Description'', ''Components'',
        ''Components 1'', ''Components 2'', ''Original Estimate'']"
  using example_output by simp

section \<open>Properties of \<^verbatim>\<open>preprocess\<close> (C5, C8)\<close>

lemma length_drop_zip:
  "length (filter (\<lambda>(k, v). k \<noteq> c) (zip cs r)) \<le> length (filter (\<lambda>k. k \<noteq> c) cs)"
proof (induction cs arbitrary: r)
  case Nil
  then show ?case by simp
next
  case (Cons k cs)
  show ?case
  proof (cases r)
    case Nil
    then show ?thesis by simp
  next
    case (Cons v vs)
    with Cons.IH [of vs] show ?thesis by (simp del: length_filter_le)
  qed
qed

lemma fits_drop_column: "fits (drop_column c d)"
  by (simp add: fits_def drop_column_def length_drop_zip)

lemma fits_first_six: "fits d \<Longrightarrow> fits (first_six d)"
  unfolding fits_def first_six_def by auto

lemma fits_dropna_all: "fits d \<Longrightarrow> fits (dropna_all d)"
  by (simp add: fits_def dropna_all_def)

lemma fits_cleanup: "fits (cleanup d)"
  unfolding cleanup_def placeholder_columns_def
  by (simp add: fits_dropna_all fits_first_six fits_drop_column)

lemma columns_cleanup:
  "columns (cleanup d) =
     take 6 (filter (\<lambda>k. k \<noteq> ''Unnamed: 7'') (filter (\<lambda>k. k \<noteq> ''Unnamed: 5'')
       (filter (\<lambda>k. k \<noteq> ''Unnamed: 3'') (columns d))))"
  by (simp add: cleanup_def placeholder_columns_def dropna_all_def first_six_def drop_column_def)

lemma columns_cleanup_clean:
  "set (columns (cleanup d)) \<inter> set placeholder_columns = {}" "length (columns (cleanup d)) \<le> 6"
proof -
  have "set (columns (cleanup d)) \<subseteq> set (filter (\<lambda>k. k \<noteq> ''Unnamed: 7'') (filter (\<lambda>k. k \<noteq> ''Unnamed: 5'')
       (filter (\<lambda>k. k \<noteq> ''Unnamed: 3'') (columns d))))"
    unfolding columns_cleanup by (rule set_take_subset)
  then show "set (columns (cleanup d)) \<inter> set placeholder_columns = {}"
    unfolding placeholder_columns_def by auto
  show "length (columns (cleanup d)) \<le> 6"
    unfolding columns_cleanup by simp
qed

lemma rows_cleanup_nonempty: "r \<in> set (rows (cleanup d)) \<Longrightarrow> \<not> list_all (\<lambda>v. v = NaN) r"
  by (simp add: cleanup_def dropna_all_def)

lemma map_snd_zip_take_left: "map snd (zip cs r) = take (length cs) r"
proof (induction cs arbitrary: r)
  case Nil
  then show ?case by simp
next
  case (Cons k cs)
  then show ?case by (cases r) simp_all
qed

lemma drop_column_absent:
  assumes "c \<notin> set cs"
  shows "drop_column c \<lparr>columns = cs, rows = rs\<rparr> = \<lparr>columns = cs, rows = map (take (length cs)) rs\<rparr>"
proof -
  have f: "filter (\<lambda>k. k \<noteq> c) cs = cs"
    using assms by (auto simp: filter_id_conv)
  have "filter (\<lambda>(k, v). k \<noteq> c) (zip cs r) = zip cs r" for r :: "val list"
    using assms by (auto simp: filter_id_conv dest: set_zip_leftD)
  then show ?thesis by (simp add: drop_column_def f map_snd_zip_take_left)
qed

lemma cleanup_clean:
  assumes "set cs \<inter> set placeholder_columns = {}" "length cs \<le> 6"
  shows "cleanup \<lparr>columns = cs, rows = d # rs\<rparr> =
     \<lparr>columns = cs, rows = filter (\<lambda>r. \<not> list_all (\<lambda>v. v = NaN) r) (map (take (length cs)) rs)\<rparr>"
proof -
  have a: "''Unnamed: 3'' \<notin> set cs" "''Unnamed: 5'' \<notin> set cs" "''Unnamed: 7'' \<notin> set cs"
    using assms(1) by (auto simp: placeholder_columns_def)
  have m: "min 6 (length cs) = length cs" "min (length cs) (length cs) = length cs"
    using assms(2) by simp_all
  have "fold drop_column placeholder_columns \<lparr>columns = cs, rows = rs\<rparr> =
      \<lparr>columns = cs, rows = map (take (length cs)) rs\<rparr>"
    by (simp add: placeholder_columns_def drop_column_absent a comp_def)
  then show ?thesis
    using assms(2) by (simp add: cleanup_def first_six_def dropna_all_def comp_def m)
qed

lemma zip_take_right: "length cs \<le> n \<Longrightarrow> zip cs (take n r) = zip cs r"
proof -
  assume a: "length cs \<le> n"
  have "zip cs (take n r) = zip (take n cs) (take n r)" using a by simp
  also have "\<dots> = take n (zip cs r)" by (simp add: take_zip)
  also have "\<dots> = zip cs r" using a by simp
  finally show ?thesis .
qed

lemma cell_take: "length cs \<le> n \<Longrightarrow> cell cs (take n r) c = cell cs r c"
  by (simp add: cell_def zip_take_right)

lemma is_end_not_empty: "is_end cs r \<Longrightarrow> \<not> list_all (\<lambda>v. v = NaN) r"
proof
  assume e: "is_end cs r" and n: "list_all (\<lambda>v. v = NaN) r"
  from e have "map_of (zip cs r) ''EPIC'' = Some (Str ''END'')"
    by (simp add: is_end_def cell_def split: option.splits)
  then have "Str ''END'' \<in> set r"
    by (meson map_of_SomeD set_zip_rightD)
  with n show False by (auto simp: list_all_iff)
qed


lemma preprocess_cases:
  assumes "columns data \<noteq> []" "2 \<le> length (rows data)" "''EPIC'' \<in> set (columns (cleanup data))"
  shows "preprocess data =
    (if list_ex (is_end (columns (cleanup data))) (rows (cleanup data))
     then Inr ((cleanup data)\<lparr>rows := takeWhile (\<lambda>r. \<not> is_end (columns (cleanup data)) r) (rows (cleanup data))\<rparr>)
     else Inl MissingSentinelError)"
proof -
  have "rows data \<noteq> []" "\<not> length (rows data) < 2" using assms(2) by auto
  then show ?thesis
    using assms(1,3) by (simp add: preprocess_def Let_def take_end_index)
qed

lemma pipeline_no_rows:
  assumes "preprocess data = Inr t" "rows t = []" "set required_cols \<subseteq> set (columns t)"
  shows "preprocess_file rnd pf data =
    Inr \<lparr>columns = output_columns @ [''Components 1'', ''Components 2''], rows = []\<rparr>"
  using assms
  by (simp add: preprocess_file_def dataframeprocess_def initial_state_def concat_final_def
      postprocess_def Let_def set_column_def get_column_def output_columns_def
      float_estimates_def epic_components_rows_def)

text \<open>
  Claim C5.  Let the cleaned table be what lines 28 to 38 leave of an input with at least one
  column and two rows, and let it have an \<^verbatim>\<open>EPIC\<close> column.  If no row of the cleaned table
  has \<^verbatim>\<open>"END"\<close> in that column, \<^verbatim>\<open>preprocess\<close> raises the missing-sentinel error.  Otherwise
  it returns the cleaned table cut to the rows strictly before the first such row.  In
  particular, when the first row of the cleaned table is the sentinel, the result is the
  table with no rows, not an error; and when the six required columns are there, the whole
  pipeline then returns the table with the nine output columns and no rows.
\<close>

theorem C5_sentinel_handling:
  assumes "columns data \<noteq> []" "2 \<le> length (rows data)" "''EPIC'' \<in> set (columns (cleanup data))"
  shows "(\<not> list_ex (is_end (columns (cleanup data))) (rows (cleanup data)) \<longrightarrow>
            preprocess data = Inl MissingSentinelError) \<and>
         (\<forall>pre e post.
            rows (cleanup data) = pre @ e # post \<and> is_end (columns (cleanup data)) e \<and>
            (\<forall>r\<in>set pre. \<not> is_end (columns (cleanup data)) r) \<longrightarrow>
            preprocess data = Inr ((cleanup data)\<lparr>rows := pre\<rparr>)) \<and>
         (\<forall>e post.
            rows (cleanup data) = e # post \<and> is_end (columns (cleanup data)) e \<longrightarrow>
            preprocess data = Inr ((cleanup data)\<lparr>rows := []\<rparr>) \<and>
            (set required_cols \<subseteq> set (columns (cleanup data)) \<longrightarrow>
             preprocess_file rnd pf data =
               Inr \<lparr>columns = output_columns @ [''Components 1'', ''Components 2''], rows = []\<rparr>))"
proof (intro conjI allI impI)
  assume "\<not> list_ex (is_end (columns (cleanup data))) (rows (cleanup data))"
  then show "preprocess data = Inl MissingSentinelError"
    by (simp add: preprocess_cases [OF assms])
next
  fix pre e post
  assume a: "rows (cleanup data) = pre @ e # post \<and> is_end (columns (cleanup data)) e \<and>
            (\<forall>r\<in>set pre. \<not> is_end (columns (cleanup data)) r)"
  then have "list_ex (is_end (columns (cleanup data))) (rows (cleanup data))"
    by (auto simp: list_ex_iff)
  moreover have "takeWhile (\<lambda>r. \<not> is_end (columns (cleanup data)) r) (rows (cleanup data)) = pre"
    using a by (simp add: takeWhile_append2)
  ultimately show "preprocess data = Inr ((cleanup data)\<lparr>rows := pre\<rparr>)"
    by (simp add: preprocess_cases [OF assms])
next
  fix e post
  assume a: "rows (cleanup data) = e # post \<and> is_end (columns (cleanup data)) e"
  then show p: "preprocess data = Inr ((cleanup data)\<lparr>rows := []\<rparr>)"
    by (simp add: preprocess_cases [OF assms])
  assume "set required_cols \<subseteq> set (columns (cleanup data))"
  then show "preprocess_file rnd pf data =
      Inr \<lparr>columns = output_columns @ [''Components 1'', ''Components 2''], rows = []\<rparr>"
    using pipeline_no_rows [OF p] by simp
qed

lemma cleanup_examples:
  "cleanup no_sentinel_input =
     \<lparr>columns = [''EPIC'', ''SUMMARY'', ''IOS'', ''AND'', ''SERV'', ''NOTES''],
      rows = [[Str ''E1'', Str ''s1'', NaN, NaN, NaN, NaN],
              [NaN, Str ''story1'', Num 1, NaN, Num 2, NaN]]\<rparr>"
  "cleanup example_input =
     \<lparr>columns = [''EPIC'', ''SUMMARY'', ''IOS'', ''AND'', ''SERV'', ''NOTES''],
      rows = [[Str ''E1'', Str ''s1'', NaN, NaN, NaN, NaN],
              [NaN, Str ''story1'', Num 1, NaN, Num 2, NaN],
              [Str ''END'', NaN, NaN, NaN, NaN, NaN]]\<rparr>"
  "cleanup sentinel_first_input =
     \<lparr>columns = [''EPIC'', ''SUMMARY'', ''IOS'', ''AND'', ''SERV'', ''NOTES''],
      rows = [[Str ''END'', NaN, NaN, NaN, NaN, NaN],
              [Str ''E1'', Str ''s1'', NaN, NaN, NaN, NaN]]\<rparr>"
  by (simp_all add: no_sentinel_input_def example_input_def sentinel_first_input_def
      cleanup_def dropna_all_def first_six_def drop_column_def placeholder_columns_def)

theorem C5_sentinel_handling_witness:
  "preprocess no_sentinel_input = Inl MissingSentinelError \<and>
   preprocess example_input =
     Inr \<lparr>columns = [''EPIC'', ''SUMMARY'', ''IOS'', ''AND'', ''SERV'', ''NOTES''],
          rows = [[Str ''E1'', Str ''s1'', NaN, NaN, NaN, NaN],
                  [NaN, Str ''story1'', Num 1, NaN, Num 2, NaN]]\<rparr> \<and>
   preprocess sentinel_first_input =
     Inr \<lparr>columns = [''EPIC'', ''SUMMARY'', ''IOS'', ''AND'', ''SERV'', ''NOTES''], rows = []\<rparr> \<and>
   preprocess_file round (\<lambda>s. None) sentinel_first_input =
     Inr \<lparr>columns = [''Issue Type'', ''Epic Name'', ''Epic Link'', ''Summary'', ''Description'',
                     ''Components'', ''Original Estimate'', ''Components 1'', ''Components 2''],
          rows = []\<rparr>"
proof -
  have 1: "preprocess no_sentinel_input = Inl MissingSentinelError"
    using C5_sentinel_handling [of no_sentinel_input, THEN conjunct1]
    by (simp add: cleanup_examples is_end_def cell_def) (simp add: no_sentinel_input_def)
  have 2: "preprocess example_input =
     Inr \<lparr>columns = [''EPIC'', ''SUMMARY'', ''IOS'', ''AND'', ''SERV'', ''NOTES''],
          rows = [[Str ''E1'', Str ''s1'', NaN, NaN, NaN, NaN],
                  [NaN, Str ''story1'', Num 1, NaN, Num 2, NaN]]\<rparr>"
    using C5_sentinel_handling [of example_input, THEN conjunct2, THEN conjunct1, rule_format,
        of "[[Str ''E1'', Str ''s1'', NaN, NaN, NaN, NaN], [NaN, Str ''story1'', Num 1, NaN, Num 2, NaN]]"
           "[Str ''END'', NaN, NaN, NaN, NaN, NaN]" "[]"]
    by (simp add: cleanup_examples is_end_def cell_def) (simp add: example_input_def)
  have 3: "preprocess sentinel_first_input =
     Inr \<lparr>columns = [''EPIC'', ''SUMMARY'', ''IOS'', ''AND'', ''SERV'', ''NOTES''], rows = []\<rparr> \<and>
   preprocess_file round (\<lambda>s. None) sentinel_first_input =
     Inr \<lparr>columns = [''Issue Type'', ''Epic Name'', ''Epic Link'', ''Summary'', ''Description'',
                     ''Components'', ''Original Estimate'', ''Components 1'', ''Components 2''],
          rows = []\<rparr>"
    using C5_sentinel_handling [of sentinel_first_input round "\<lambda>s. None", THEN conjunct2, THEN conjunct2, rule_format,
        of "[Str ''END'', NaN, NaN, NaN, NaN, NaN]" "[[Str ''E1'', Str ''s1'', NaN, NaN, NaN, NaN]]"]
    by (simp add: cleanup_examples is_end_def cell_def required_cols_def output_columns_def)
       (simp add: sentinel_first_input_def)
  from 1 2 3 show ?thesis by simp
qed

lemma preprocess_example:
  "preprocess example_input =
     Inr \<lparr>columns = [''EPIC'', ''SUMMARY'', ''IOS'', ''AND'', ''SERV'', ''NOTES''],
          rows = [[Str ''E1'', Str ''s1'', NaN, NaN, NaN, NaN],
                  [NaN, Str ''story1'', Num 1, NaN, Num 2, NaN]]\<rparr>"
  by (simp add: example_input_def stage1_defs)

lemma preprocess_output:
  assumes "preprocess data = Inr t"
  shows "columns t = columns (cleanup data)"
    and "rows t = takeWhile (\<lambda>r. \<not> is_end (columns t) r) (rows (cleanup data))"
    and "''EPIC'' \<in> set (columns t)"
  using assms by (auto simp: preprocess_def Let_def take_end_index split: if_splits)

text \<open>
  Claim C8, as the code has it.  The output of \<^verbatim>\<open>preprocess\<close> never contains a sentinel row
  (the table is cut strictly before it), and \<^verbatim>\<open>preprocess\<close> refuses a table without one.
  So the output is reproduced when it is fed back with a first row added and a sentinel row
  appended: for every output \<open>t\<close> of \<^verbatim>\<open>preprocess\<close>, any first row \<open>d\<close> and any row \<open>e\<close>
  whose \<^verbatim>\<open>EPIC\<close> cell is \<^verbatim>\<open>"END"\<close>, \<^verbatim>\<open>preprocess\<close> on \<open>d\<close>, the rows of \<open>t\<close>, \<open>e\<close> returns
  \<open>t\<close>.
\<close>

theorem C8_normalization_idempotent:
  assumes "preprocess data = Inr t" "is_end (columns t) e"
  shows "preprocess (t\<lparr>rows := d # rows t @ [e]\<rparr>) = Inr t"
proof -
  let ?cs = "columns t"
  let ?e = "take (length ?cs) e"
  note out = preprocess_output [OF assms(1)]
  have cs: "set ?cs \<inter> set placeholder_columns = {}" "length ?cs \<le> 6"
    using columns_cleanup_clean [of data] out(1) by simp_all
  have sub: "set (rows t) \<subseteq> set (rows (cleanup data))"
    using out(2) set_takeWhileD [of _ "\<lambda>r. \<not> is_end (columns t) r" "rows (cleanup data)"] by auto
  have fit: "\<forall>r\<in>set (rows t). take (length ?cs) r = r"
    using sub fits_cleanup [of data] out(1) by (auto simp: fits_def)
  have ne: "\<forall>r\<in>set (rows t). \<not> list_all (\<lambda>v. v = NaN) r"
    using sub rows_cleanup_nonempty by blast
  have noend: "\<forall>r\<in>set (rows t). \<not> is_end ?cs r"
    using set_takeWhileD [of _ "\<lambda>r. \<not> is_end ?cs r" "rows (cleanup data)"] out(2) by auto
  have e: "is_end ?cs ?e"
    using assms(2) by (simp add: is_end_def cell_take)
  have m: "map (take (length ?cs)) (rows t) = rows t"
    using fit by (simp add: map_idI)
  have f: "filter (\<lambda>r. \<not> list_all (\<lambda>v. v = NaN) r) (rows t) = rows t"
    using ne by (simp add: filter_id_conv)
  have t': "t\<lparr>rows := d # rows t @ [e]\<rparr> = \<lparr>columns = ?cs, rows = d # (rows t @ [e])\<rparr>"
    by simp
  have c: "cleanup (t\<lparr>rows := d # rows t @ [e]\<rparr>) = \<lparr>columns = ?cs, rows = rows t @ [?e]\<rparr>"
    unfolding t' cleanup_clean [OF cs] using is_end_not_empty [OF e] by (simp add: m f)
  have tw: "takeWhile (\<lambda>r. \<not> is_end ?cs r) (rows t @ [?e]) = rows t"
    using noend e by (simp add: takeWhile_append2)
  have "columns (t\<lparr>rows := d # rows t @ [e]\<rparr>) \<noteq> []" using out(3) by auto
  moreover have "2 \<le> length (rows (t\<lparr>rows := d # rows t @ [e]\<rparr>))" by simp
  moreover have "''EPIC'' \<in> set (columns (cleanup (t\<lparr>rows := d # rows t @ [e]\<rparr>)))"
    using out(3) by (simp add: c)
  ultimately have "preprocess (t\<lparr>rows := d # rows t @ [e]\<rparr>) =
      Inr \<lparr>columns = ?cs, rows = rows t\<rparr>"
    using e by (simp add: preprocess_cases c tw)
  then show ?thesis by simp
qed

theorem C8_normalization_idempotent_witness:
  "\<exists>t. preprocess example_input = Inr t \<and> is_end (columns t) [Str ''END''] \<and>
     preprocess (t\<lparr>rows := [Str ''dummy''] # rows t @ [[Str ''END'']]\<rparr>) = Inr t"
proof -
  obtain t where t: "preprocess example_input = Inr t" "is_end (columns t) [Str ''END'']"
    using preprocess_example by (auto simp: is_end_def cell_def)
  then show ?thesis
    using C8_normalization_idempotent [OF t, of "[Str ''dummy'']"] by blast
qed

text \<open>Fed back with only a first row added, the output of the worked example is refused:
  it has no sentinel row.\<close>

theorem C8_rerun_without_sentinel_counterexample:
  "\<exists>t. preprocess example_input = Inr t \<and>
     preprocess (t\<lparr>rows := [NaN, Str ''As a user I need to'', NaN, NaN, NaN, NaN] # rows t\<rparr>)
       = Inl MissingSentinelError"
proof -
  have "preprocess \<lparr>columns = [''EPIC'', ''SUMMARY'', ''IOS'', ''AND'', ''SERV'', ''NOTES''],
          rows = [[NaN, Str ''As a user I need to'', NaN, NaN, NaN, NaN],
                  [Str ''E1'', Str ''s1'', NaN, NaN, NaN, NaN],
                  [NaN, Str ''story1'', Num 1, NaN, Num 2, NaN]]\<rparr> = Inl MissingSentinelError"
    by (simp add: stage1_defs)
  then show ?thesis
    using preprocess_example by simp
qed

section \<open>Properties of the loop of \<^verbatim>\<open>dataframeprocess\<close> (C6, C7)\<close>

lemma py_float_cases:
  "notna v \<Longrightarrow> py_float pf v = (if parses pf v then Inr (days pf v) else Inl InvalidEstimateError)"
  by (cases v) (auto simp: py_float_def parses_def days_def notna_def split: option.splits)

lemma process_row_epic:
  assumes "is_epic_row cs row"
  shows "process_row pf cs i row st =
    Inr (st\<lparr>current_epic_name := cell cs row ''EPIC'',
            epic_estimates := (epic_estimates st)(cell cs row ''EPIC'' \<mapsto> 0),
            epic_components_tracker :=
              (epic_components_tracker st)(cell cs row ''EPIC'' \<mapsto>
                 \<lparr>android = False, ios = False, server = False\<rparr>),
            data_rows := data_rows st @ [epic_record cs row]\<rparr>)"
  using assms by (simp add: process_row_def is_epic_row_def)

lemma process_row_blank:
  assumes "\<not> is_epic_row cs row" "\<not> is_story_row cs row"
  shows "process_row pf cs i row st = Inr st"
  using assms by (simp add: process_row_def is_epic_row_def is_story_row_def)

lemma process_row_orphan:
  assumes "is_story_row cs row" "\<not> py_bool (current_epic_name st)"
  shows "process_row pf cs i row st = Inl (OrphanStoryError i)"
  using assms by (simp add: process_row_def is_story_row_def)

lemma platform_block_cases:
  assumes "epic_components_tracker st (current_epic_name st) = Some fl"
  shows "platform_block pf cs row col tag mark (st, xs) =
    (if notna (cell cs row col) then
       (if parses pf (cell cs row col) then
          Inr (st\<lparr>epic_components_tracker :=
                    (epic_components_tracker st)(current_epic_name st \<mapsto> mark fl),
                  data_rows := data_rows st @ [story_record cs (current_epic_name st) row col tag]\<rparr>,
               xs @ [days pf (cell cs row col)])
        else Inl InvalidEstimateError)
     else Inr (st, xs))"
  using assms by (simp add: platform_block_def py_float_cases)

lemma process_row_story:
  assumes "is_story_row cs row" "py_bool (current_epic_name st)"
    and "epic_components_tracker st (current_epic_name st) = Some fl"
    and "epic_estimates st (current_epic_name st) = Some e"
  shows "process_row pf cs i row st =
    (if row_parses pf cs row then
       Inr (st\<lparr>epic_estimates := (epic_estimates st)(current_epic_name st \<mapsto> e + row_days pf cs row),
               epic_components_tracker :=
                 (epic_components_tracker st)(current_epic_name st \<mapsto> row_flags cs row fl),
               data_rows := data_rows st @ story_records cs (current_epic_name st) row\<rparr>)
     else Inl InvalidEstimateError)"
proof -
  have a: "\<not> notna (cell cs row ''EPIC'')" "notna (cell cs row ''SUMMARY'')"
    using assms(1) by (simp_all add: is_story_row_def)
  obtain fa fi fs where fl: "fl = \<lparr>android = fa, ios = fi, server = fs\<rparr>"
    by (cases fl) simp
  have triv: "(epic_components_tracker st)(current_epic_name st \<mapsto>
      \<lparr>android = fa, ios = fi, server = fs\<rparr>) = epic_components_tracker st"
    using assms(3) fl by (simp add: map_upd_triv)
  show ?thesis
    unfolding process_row_def
    apply (simp only: a assms(2) if_True if_False not_True_eq_False not_False_eq_True)
    apply (cases "notna (cell cs row ''SERV'')"; cases "parses pf (cell cs row ''SERV'')";
           cases "notna (cell cs row ''IOS'')"; cases "parses pf (cell cs row ''IOS'')";
           cases "notna (cell cs row ''AND'')"; cases "parses pf (cell cs row ''AND'')")
    apply (simp_all add: platform_block_cases assms(3,4) row_parses_def row_days_def row_flags_def
        story_records_def fl add.assoc triv)
    done
qed


lemma iterrows_orphan:
  assumes "\<not> py_bool (current_epic_name st)" "j < length rs" "is_story_row cs (rs ! j)"
    and "\<forall>i<j. \<not> is_epic_row cs (rs ! i)"
  shows "\<exists>i\<le>j. iterrows pf cs n rs st = Inl (OrphanStoryError (n + i)) \<and>
           is_story_row cs (rs ! i) \<and> (\<forall>k<i. \<not> is_story_row cs (rs ! k))"
  using assms
proof (induction rs arbitrary: j n)
  case Nil
  then show ?case by simp
next
  case (Cons r rs)
  show ?case
  proof (cases "is_story_row cs r")
    case True
    then have "iterrows pf cs n (r # rs) st = Inl (OrphanStoryError (n + 0))"
      using Cons.prems(1) by (simp add: process_row_orphan)
    with True show ?thesis by (intro exI [of _ 0]) simp
  next
    case False
    then obtain j' where j: "j = Suc j'" using Cons.prems(3) by (cases j) auto
    have ne: "\<not> is_epic_row cs r" using Cons.prems(4) j by auto
    have pre: "j' < length rs" "is_story_row cs (rs ! j')" "\<forall>i<j'. \<not> is_epic_row cs (rs ! i)"
      using Cons.prems j by auto
    from Cons.IH [OF Cons.prems(1) pre, of "Suc n"] obtain i where
      i: "i \<le> j'" "iterrows pf cs (Suc n) rs st = Inl (OrphanStoryError (Suc n + i))"
        "is_story_row cs (rs ! i)" "\<forall>k<i. \<not> is_story_row cs (rs ! k)"
      by blast
    have "iterrows pf cs n (r # rs) st = Inl (OrphanStoryError (n + Suc i))"
      using i(2) by (simp add: process_row_blank [OF ne False])
    moreover have "\<forall>k<Suc i. \<not> is_story_row cs ((r # rs) ! k)"
      using i(4) False by (auto simp: less_Suc_eq_0_disj)
    ultimately show ?thesis
      using i(1,3) j by (intro exI [of _ "Suc i"]) simp
  qed
qed

text \<open>
  Claim C6.  Let the table have the six required columns, and let row \<open>j\<close> be a Story row
  (empty \<^verbatim>\<open>EPIC\<close>, non-empty \<^verbatim>\<open>SUMMARY\<close>) with no Epic row before it.  Then
  \<^verbatim>\<open>dataframeprocess\<close> raises the orphan-story error with the index \<open>i\<close> of the first Story row
  of the table, which is at or before \<open>j\<close> and so has no Epic row before it either; and every
  run of the pipeline whose cleaned table is this one ends with the same error, so no row is
  skipped and nothing is written.
\<close>

theorem C6_orphan_story:
  assumes "set required_cols \<subseteq> set (columns data)"
    and "j < length (rows data)" "is_story_row (columns data) (rows data ! j)"
    and "\<forall>i<j. \<not> is_epic_row (columns data) (rows data ! i)"
  shows "\<exists>i\<le>j. is_story_row (columns data) (rows data ! i) \<and>
           (\<forall>k<i. \<not> is_story_row (columns data) (rows data ! k)) \<and>
           dataframeprocess pf data = Inl (OrphanStoryError i) \<and>
           (\<forall>raw. preprocess raw = Inr data \<longrightarrow>
                  preprocess_file rnd pf raw = Inl (OrphanStoryError i))"
proof -
  have "\<not> py_bool (current_epic_name initial_state)"
    by (simp add: initial_state_def py_bool_def)
  from iterrows_orphan [OF this assms(2-4), of pf 0] obtain i where
    i: "i \<le> j" "iterrows pf (columns data) 0 (rows data) initial_state = Inl (OrphanStoryError i)"
      "is_story_row (columns data) (rows data ! i)"
      "\<forall>k<i. \<not> is_story_row (columns data) (rows data ! k)"
    by auto
  have d: "dataframeprocess pf data = Inl (OrphanStoryError i)"
    using assms(1) i(2) by (simp add: dataframeprocess_def)
  then have "\<forall>raw. preprocess raw = Inr data \<longrightarrow>
      preprocess_file rnd pf raw = Inl (OrphanStoryError i)"
    by (simp add: preprocess_file_def)
  with i d show ?thesis by blast
qed

lemma preprocess_orphan_input:
  "preprocess orphan_input =
     Inr \<lparr>columns = [''EPIC'', ''SUMMARY'', ''IOS'', ''AND'', ''SERV'', ''NOTES''],
          rows = [[NaN, Str ''story0'', NaN, NaN, Str ''abc'', NaN],
                  [Str ''E1'', Str ''s1'', NaN, NaN, NaN, NaN]]\<rparr>"
  by (simp add: orphan_input_def stage1_defs)

theorem C6_orphan_story_witness:
  "dataframeprocess (\<lambda>s. None)
     \<lparr>columns = [''EPIC'', ''SUMMARY'', ''IOS'', ''AND'', ''SERV'', ''NOTES''],
      rows = [[NaN, Str ''story0'', NaN, NaN, Str ''abc'', NaN],
              [Str ''E1'', Str ''s1'', NaN, NaN, NaN, NaN]]\<rparr> = Inl (OrphanStoryError 0) \<and>
   preprocess_file round (\<lambda>s. None) orphan_input = Inl (OrphanStoryError 0)"
proof -
  let ?d = "\<lparr>columns = [''EPIC'', ''SUMMARY'', ''IOS'', ''AND'', ''SERV'', ''NOTES''],
      rows = [[NaN, Str ''story0'', NaN, NaN, Str ''abc'', NaN],
              [Str ''E1'', Str ''s1'', NaN, NaN, NaN, NaN]]\<rparr>"
  have "set required_cols \<subseteq> set (columns ?d)" by (simp add: required_cols_def)
  moreover have "0 < length (rows ?d)" by simp
  moreover have "is_story_row (columns ?d) (rows ?d ! 0)"
    by (simp add: is_story_row_def cell_def notna_def)
  moreover have "\<forall>i<0. \<not> is_epic_row (columns ?d) (rows ?d ! i)" by simp
  ultimately obtain i where "i \<le> 0"
    "dataframeprocess (\<lambda>s. None) ?d = Inl (OrphanStoryError i)"
    "\<forall>raw. preprocess raw = Inr ?d \<longrightarrow>
        preprocess_file round (\<lambda>s. None) raw = Inl (OrphanStoryError i)"
    using C6_orphan_story [of ?d 0 "\<lambda>s. None" round] by blast
  then show ?thesis using preprocess_orphan_input by simp
qed

lemma keys_ok_initial: "keys_ok initial_state"
  by (simp add: keys_ok_def initial_state_def py_bool_def)

lemma process_row_cases:
  assumes "keys_ok st"
  shows "process_row pf cs i row st =
    (if is_epic_row cs row then
       Inr (st\<lparr>current_epic_name := cell cs row ''EPIC'',
               epic_estimates := (epic_estimates st)(cell cs row ''EPIC'' \<mapsto> 0),
               epic_components_tracker :=
                 (epic_components_tracker st)(cell cs row ''EPIC'' \<mapsto>
                    \<lparr>android = False, ios = False, server = False\<rparr>),
               data_rows := data_rows st @ [epic_record cs row]\<rparr>)
     else if is_story_row cs row then
       (if \<not> py_bool (current_epic_name st) then Inl (OrphanStoryError i)
        else if row_parses pf cs row then
          Inr (st\<lparr>epic_estimates :=
                    (epic_estimates st)(current_epic_name st \<mapsto>
                       the (epic_estimates st (current_epic_name st)) + row_days pf cs row),
                  epic_components_tracker :=
                    (epic_components_tracker st)(current_epic_name st \<mapsto>
                       row_flags cs row (the (epic_components_tracker st (current_epic_name st)))),
                  data_rows := data_rows st @ story_records cs (current_epic_name st) row\<rparr>)
        else Inl InvalidEstimateError)
     else Inr st)"
proof (cases "is_epic_row cs row")
  case True
  then show ?thesis by (simp add: process_row_epic)
next
  case ne: False
  show ?thesis
  proof (cases "is_story_row cs row")
    case False
    with ne show ?thesis by (simp add: process_row_blank)
  next
    case True
    show ?thesis
    proof (cases "py_bool (current_epic_name st)")
      case False
      with ne True show ?thesis by (simp add: process_row_orphan)
    next
      case b: True
      with assms obtain e fl where
        "epic_estimates st (current_epic_name st) = Some e"
        "epic_components_tracker st (current_epic_name st) = Some fl"
        by (auto simp: keys_ok_def)
      with ne True b show ?thesis by (simp add: process_row_story)
    qed
  qed
qed

lemma process_row_keys_ok:
  assumes "keys_ok st" "process_row pf cs i row st = Inr st'"
  shows "keys_ok st'"
  using assms(2) unfolding process_row_cases [OF assms(1)]
  using assms(1) by (auto simp: keys_ok_def split: if_splits)


lemma process_row_data_rows:
  assumes "keys_ok st" "process_row pf cs i row st = Inr st'"
  shows "\<exists>more. data_rows st' = data_rows st @ more"
  using assms(2) unfolding process_row_cases [OF assms(1)]
  by (auto split: if_splits)

lemma iterrows_data_rows:
  assumes "keys_ok st" "iterrows pf cs n rs st = Inr st'"
  shows "\<exists>more. data_rows st' = data_rows st @ more"
  using assms
proof (induction rs arbitrary: n st)
  case Nil
  then show ?case by simp
next
  case (Cons r rs)
  from Cons.prems(2) obtain st1 where
    s: "process_row pf cs n r st = Inr st1" "iterrows pf cs (Suc n) rs st1 = Inr st'"
    by (auto simp: bind_err_Inr_iff)
  from process_row_data_rows [OF Cons.prems(1) s(1)] obtain m1 where
    "data_rows st1 = data_rows st @ m1" by blast
  moreover from Cons.IH [OF process_row_keys_ok [OF Cons.prems(1) s(1)] s(2)] obtain m2 where
    "data_rows st' = data_rows st1 @ m2" by blast
  ultimately show ?case by simp
qed

lemma row_parses_bad:
  assumes "col \<in> {''SERV'', ''IOS'', ''AND''}" "notna (cell cs row col)"
    "py_float pf (cell cs row col) = Inl InvalidEstimateError"
  shows "\<not> row_parses pf cs row"
  using assms by (auto simp: row_parses_def parses_def)

lemma iterrows_bad_row:
  assumes "keys_ok st" "j < length rs" "is_story_row cs (rs ! j)" "\<not> row_parses pf cs (rs ! j)"
  shows "iterrows pf cs n rs st = Inl InvalidEstimateError \<or>
         (\<exists>i\<le>j. iterrows pf cs n rs st = Inl (OrphanStoryError (n + i)))"
  using assms
proof (induction rs arbitrary: j n st)
  case Nil
  then show ?case by simp
next
  case (Cons r rs)
  show ?case
  proof (cases "process_row pf cs n r st")
    case (Inl err)
    then have "err = InvalidEstimateError \<or> err = OrphanStoryError n"
      unfolding process_row_cases [OF Cons.prems(1)] by (auto split: if_splits)
    with Inl show ?thesis by auto
  next
    case (Inr st1)
    have "j \<noteq> 0"
    proof
      assume "j = 0"
      then have "is_story_row cs r" "\<not> row_parses pf cs r" using Cons.prems by auto
      moreover have "\<not> is_epic_row cs r"
        using \<open>is_story_row cs r\<close> by (simp add: is_story_row_def is_epic_row_def)
      ultimately show False
        using Inr unfolding process_row_cases [OF Cons.prems(1)] by (auto split: if_splits)
    qed
    then obtain j' where j: "j = Suc j'" by (cases j) auto
    have pre: "j' < length rs" "is_story_row cs (rs ! j')" "\<not> row_parses pf cs (rs ! j')"
      using Cons.prems j by auto
    from Cons.IH [OF process_row_keys_ok [OF Cons.prems(1) Inr] pre, of "Suc n"]
    have "iterrows pf cs (Suc n) rs st1 = Inl InvalidEstimateError \<or>
         (\<exists>i\<le>j'. iterrows pf cs (Suc n) rs st1 = Inl (OrphanStoryError (Suc n + i)))" .
    then show ?thesis
    proof
      assume "iterrows pf cs (Suc n) rs st1 = Inl InvalidEstimateError"
      then show ?thesis using Inr by simp
    next
      assume "\<exists>i\<le>j'. iterrows pf cs (Suc n) rs st1 = Inl (OrphanStoryError (Suc n + i))"
      then obtain i where "i \<le> j'" "iterrows pf cs (Suc n) rs st1 = Inl (OrphanStoryError (Suc n + i))"
        by blast
      then have "Suc i \<le> j \<and> iterrows pf cs n (r # rs) st = Inl (OrphanStoryError (n + Suc i))"
        using Inr j by simp
      then show ?thesis by blast
    qed
  qed
qed

lemma iterrows_no_orphan:
  assumes "keys_ok st" "py_bool (current_epic_name st)"
    and "\<forall>r\<in>set rs. is_epic_row cs r \<longrightarrow> py_bool (cell cs r ''EPIC'')"
  shows "iterrows pf cs n rs st \<noteq> Inl (OrphanStoryError i)"
  using assms
proof (induction rs arbitrary: n st)
  case Nil
  then show ?case by simp
next
  case (Cons r rs)
  show ?case
  proof (cases "process_row pf cs n r st")
    case (Inl err)
    then have "err = InvalidEstimateError"
      unfolding process_row_cases [OF Cons.prems(1)] using Cons.prems(2) by (auto split: if_splits)
    with Inl show ?thesis by simp
  next
    case (Inr st1)
    then have "py_bool (current_epic_name st1)"
      unfolding process_row_cases [OF Cons.prems(1)] using Cons.prems(2,3)
      by (auto split: if_splits)
    from Cons.IH [OF process_row_keys_ok [OF Cons.prems(1) Inr] this, of "Suc n"] Cons.prems(3)
    show ?thesis using Inr by simp
  qed
qed

lemma preprocess_invalid_estimate_input:
  "preprocess invalid_estimate_input =
     Inr \<lparr>columns = [''EPIC'', ''SUMMARY'', ''IOS'', ''AND'', ''SERV'', ''NOTES''],
          rows = [[Str ''E1'', Str ''s1'', NaN, NaN, NaN, NaN],
                  [NaN, Str ''story1'', NaN, NaN, Str ''abc'', NaN]]\<rparr>"
  by (simp add: invalid_estimate_input_def stage1_defs)

lemma pipeline_orphan_input:
  "preprocess_file round (\<lambda>s. None) orphan_input = Inl (OrphanStoryError 0)"
  by (simp add: preprocess_file_def preprocess_orphan_input dataframeprocess_def required_cols_def
      process_row_def initial_state_def cell_def notna_def py_bool_def)

text \<open>A story with the cell \<^verbatim>\<open>SERV = "abc"\<close> before any epic: the pipeline raises the
  orphan-story error, not the invalid estimate error.\<close>

theorem C7_orphan_first_counterexample:
  "notna (cell (columns orphan_input) (rows orphan_input ! 1) ''SERV'') \<and>
   py_float (\<lambda>s. None) (cell (columns orphan_input) (rows orphan_input ! 1) ''SERV'')
     = Inl InvalidEstimateError \<and>
   preprocess_file round (\<lambda>s. None) orphan_input = Inl (OrphanStoryError 0) \<and>
   preprocess_file round (\<lambda>s. None) orphan_input \<noteq> Inl InvalidEstimateError"
  by (simp add: pipeline_orphan_input) (simp add: orphan_input_def cell_def notna_def py_float_def)

lemma dataframeprocess_three_platform:
  "dataframeprocess (\<lambda>s. None) three_platform_table =
     Inr (\<lparr>columns = output_columns,
           rows = [[Str ''Epic'', Str ''E1'', Str [], Str ''s1'', NaN, Str [], Str []],
                   [Str ''Story'', Str [], Str ''E1'', Str ''story1'', Str ''n1'', Str ''Server'', Num 2],
                   [Str ''Story'', Str [], Str ''E1'', Str ''story1'', Str ''n1'', Str ''iOS'', Num 1],
                   [Str ''Story'', Str [], Str ''E1'', Str ''story1'', Str ''n1'', Str ''Android'', Num 3],
                   [Str ''Story'', Str [], Str ''E1'', Str ''story2'', NaN, Str ''Android'', Num 5]]\<rparr>,
          [Str ''E1'' \<mapsto> 11], [Str ''E1'' \<mapsto> \<lparr>android = True, ios = True, server = True\<rparr>])"
  by (simp add: three_platform_table_def dataframeprocess_def required_cols_def initial_state_def
      process_row_def platform_block_def story_record_def epic_record_def py_float_def py_bool_def
      notna_def concat_final_def row_values_def cell_def)

section \<open>The output of the expander (C4, C7)\<close>

lemma last_epic_append:
  "last_epic cs cur (xs @ ys) = last_epic cs (last_epic cs cur xs) ys"
  by (induction xs arbitrary: cur) simp_all

lemma expand_append:
  "expand cs cur (xs @ ys) = expand cs cur xs @ expand cs (last_epic cs cur xs) ys"
  by (induction xs arbitrary: cur) simp_all

lemma expander_ok_append:
  "expander_ok pf cs cur (xs @ ys) \<longleftrightarrow>
     expander_ok pf cs cur xs \<and> expander_ok pf cs (last_epic cs cur xs) ys"
  by (induction xs arbitrary: cur) auto

lemma iterrows_current:
  assumes "keys_ok st" "iterrows pf cs n rs st = Inr st'"
  shows "current_epic_name st' = last_epic cs (current_epic_name st) rs"
  using assms
proof (induction rs arbitrary: n st)
  case Nil
  then show ?case by simp
next
  case (Cons r rs)
  from Cons.prems(2) obtain st1 where
    s: "process_row pf cs n r st = Inr st1" "iterrows pf cs (Suc n) rs st1 = Inr st'"
    by (auto simp: bind_err_Inr_iff)
  have "current_epic_name st1 = (if is_epic_row cs r then cell cs r ''EPIC'' else current_epic_name st)"
    using s(1) unfolding process_row_cases [OF Cons.prems(1)] by (auto split: if_splits)
  with Cons.IH [OF process_row_keys_ok [OF Cons.prems(1) s(1)] s(2)] show ?case by simp
qed

lemma iterrows_total:
  assumes "keys_ok st" "expander_ok pf cs (current_epic_name st) rs"
  shows "\<exists>st'. iterrows pf cs n rs st = Inr st' \<and>
           data_rows st' = data_rows st @ expand cs (current_epic_name st) rs"
  using assms
proof (induction rs arbitrary: n st)
  case Nil
  then show ?case by simp
next
  case (Cons r rs)
  consider (epic) "is_epic_row cs r" | (story) "\<not> is_epic_row cs r" "is_story_row cs r"
    | (blank) "\<not> is_epic_row cs r" "\<not> is_story_row cs r" by blast
  then obtain st1 where
    p: "process_row pf cs n r st = Inr st1"
    and c: "current_epic_name st1 = (if is_epic_row cs r then cell cs r ''EPIC'' else current_epic_name st)"
    and d: "data_rows st1 = data_rows st @
        (if is_epic_row cs r then [epic_record cs r]
         else if is_story_row cs r then story_records cs (current_epic_name st) r else [])"
  proof cases
    case epic
    then show ?thesis using that [unfolded process_row_cases [OF Cons.prems(1)]] by simp
  next
    case story
    then have "py_bool (current_epic_name st)" "row_parses pf cs r" using Cons.prems(2) by simp_all
    with story show ?thesis using that [unfolded process_row_cases [OF Cons.prems(1)]] by simp
  next
    case blank
    then show ?thesis using that [unfolded process_row_cases [OF Cons.prems(1)]] by simp
  qed
  have ok: "expander_ok pf cs (current_epic_name st1) rs"
    using Cons.prems(2) c by (auto split: if_splits)
  from Cons.IH [OF process_row_keys_ok [OF Cons.prems(1) p] ok, of "Suc n"] obtain st' where
    "iterrows pf cs (Suc n) rs st1 = Inr st'"
    "data_rows st' = data_rows st1 @ expand cs (current_epic_name st1) rs"
    by blast
  then show ?case using p c d by auto
qed

lemma dataframeprocess_total:
  assumes "set required_cols \<subseteq> set cs" "expander_ok pf cs (Str []) rs"
  shows "\<exists>est trk. dataframeprocess pf \<lparr>columns = cs, rows = rs\<rparr> =
           Inr (\<lparr>columns = output_columns, rows = map row_values (expand cs (Str []) rs)\<rparr>, est, trk)"
proof -
  have "expander_ok pf cs (current_epic_name initial_state) rs"
    using assms(2) by (simp add: initial_state_def)
  from iterrows_total [OF keys_ok_initial this, of 0] obtain st where
    "iterrows pf cs 0 rs initial_state = Inr st" "data_rows st = expand cs (Str []) rs"
    by (auto simp: initial_state_def)
  then show ?thesis using assms(1) by (simp add: dataframeprocess_def concat_final_def)
qed

text \<open>
  Claim C4.  Take a table with the six required columns on which the expander does not fail
  (every Story row has a current epic and cells that parse: \<open>expander_ok\<close>), and a Story row
  \<open>row\<close> of it, after the rows \<open>pre\<close> and before the rows \<open>post\<close>.  Then
  \<^verbatim>\<open>dataframeprocess\<close> returns, on \<open>pre\<close> alone and on the whole table, and the output of the
  whole table is: the output of \<open>pre\<close>; then the records of \<open>row\<close>, which are the Server
  record if \<^verbatim>\<open>SERV\<close> is present, the iOS record if \<^verbatim>\<open>IOS\<close> is, the Android record if \<^verbatim>\<open>AND\<close>
  is, in this order whichever are present, each linked to the current epic and carrying the
  cell of its own platform as its estimate; then the records of \<open>post\<close>, and nothing else.
  With all three cells present these are exactly three records, Server, iOS, Android.
\<close>

theorem C4_story_expansion:
  assumes "set required_cols \<subseteq> set cs"
    and "expander_ok pf cs (Str []) (pre @ row # post)"
    and "is_story_row cs row"
  shows "(\<exists>est trk. dataframeprocess pf \<lparr>columns = cs, rows = pre\<rparr> =
            Inr (\<lparr>columns = output_columns, rows = map row_values (expand cs (Str []) pre)\<rparr>,
                 est, trk)) \<and>
         (\<exists>est trk. dataframeprocess pf \<lparr>columns = cs, rows = pre @ row # post\<rparr> =
            Inr (\<lparr>columns = output_columns,
                  rows = map row_values (expand cs (Str []) pre) @
                    map row_values
                      ((if notna (cell cs row ''SERV'') then
                          [\<lparr>issue_type = Str ''Story'', epic_name = Str [],
                            epic_link = last_epic cs (Str []) pre,
                            summary = cell cs row ''SUMMARY'', description = cell cs row ''NOTES'',
                            components = Str ''Server'', original_estimate = cell cs row ''SERV''\<rparr>]
                        else []) @
                       (if notna (cell cs row ''IOS'') then
                          [\<lparr>issue_type = Str ''Story'', epic_name = Str [],
                            epic_link = last_epic cs (Str []) pre,
                            summary = cell cs row ''SUMMARY'', description = cell cs row ''NOTES'',
                            components = Str ''iOS'', original_estimate = cell cs row ''IOS''\<rparr>]
                        else []) @
                       (if notna (cell cs row ''AND'') then
                          [\<lparr>issue_type = Str ''Story'', epic_name = Str [],
                            epic_link = last_epic cs (Str []) pre,
                            summary = cell cs row ''SUMMARY'', description = cell cs row ''NOTES'',
                            components = Str ''Android'', original_estimate = cell cs row ''AND''\<rparr>]
                        else [])) @
                    map row_values (expand cs (last_epic cs (Str []) pre) post)\<rparr>,
                 est, trk)) \<and>
         (notna (cell cs row ''SERV'') \<and> notna (cell cs row ''IOS'') \<and> notna (cell cs row ''AND'') \<longrightarrow>
          (\<exists>est trk. dataframeprocess pf \<lparr>columns = cs, rows = pre @ row # post\<rparr> =
            Inr (\<lparr>columns = output_columns,
                  rows = map row_values (expand cs (Str []) pre) @
                    [[Str ''Story'', Str [], last_epic cs (Str []) pre, cell cs row ''SUMMARY'',
                      cell cs row ''NOTES'', Str ''Server'', cell cs row ''SERV''],
                     [Str ''Story'', Str [], last_epic cs (Str []) pre, cell cs row ''SUMMARY'',
                      cell cs row ''NOTES'', Str ''iOS'', cell cs row ''IOS''],
                     [Str ''Story'', Str [], last_epic cs (Str []) pre, cell cs row ''SUMMARY'',
                      cell cs row ''NOTES'', Str ''Android'', cell cs row ''AND'']] @
                    map row_values (expand cs (last_epic cs (Str []) pre) post)\<rparr>,
                 est, trk)))"
proof -
  have ne: "\<not> is_epic_row cs row"
    using assms(3) by (simp add: is_story_row_def is_epic_row_def)
  have okpre: "expander_ok pf cs (Str []) pre"
    using assms(2) by (simp add: expander_ok_append)
  have e: "expand cs (Str []) (pre @ row # post) =
      expand cs (Str []) pre @ story_records cs (last_epic cs (Str []) pre) row @
      expand cs (last_epic cs (Str []) pre) post"
    using assms(3) ne by (simp add: expand_append)
  from dataframeprocess_total [OF assms(1) assms(2)] obtain est trk where
    d: "dataframeprocess pf \<lparr>columns = cs, rows = pre @ row # post\<rparr> =
      Inr (\<lparr>columns = output_columns,
            rows = map row_values (expand cs (Str []) (pre @ row # post))\<rparr>, est, trk)"
    by blast
  have 1: "\<exists>est trk. dataframeprocess pf \<lparr>columns = cs, rows = pre\<rparr> =
            Inr (\<lparr>columns = output_columns, rows = map row_values (expand cs (Str []) pre)\<rparr>,
                 est, trk)"
    using dataframeprocess_total [OF assms(1) okpre] .
  have 2: "dataframeprocess pf \<lparr>columns = cs, rows = pre @ row # post\<rparr> =
            Inr (\<lparr>columns = output_columns,
                  rows = map row_values (expand cs (Str []) pre) @
                    map row_values
                      ((if notna (cell cs row ''SERV'') then
                          [\<lparr>issue_type = Str ''Story'', epic_name = Str [],
                            epic_link = last_epic cs (Str []) pre,
                            summary = cell cs row ''SUMMARY'', description = cell cs row ''NOTES'',
                            components = Str ''Server'', original_estimate = cell cs row ''SERV''\<rparr>]
                        else []) @
                       (if notna (cell cs row ''IOS'') then
                          [\<lparr>issue_type = Str ''Story'', epic_name = Str [],
                            epic_link = last_epic cs (Str []) pre,
                            summary = cell cs row ''SUMMARY'', description = cell cs row ''NOTES'',
                            components = Str ''iOS'', original_estimate = cell cs row ''IOS''\<rparr>]
                        else []) @
                       (if notna (cell cs row ''AND'') then
                          [\<lparr>issue_type = Str ''Story'', epic_name = Str [],
                            epic_link = last_epic cs (Str []) pre,
                            summary = cell cs row ''SUMMARY'', description = cell cs row ''NOTES'',
                            components = Str ''Android'', original_estimate = cell cs row ''AND''\<rparr>]
                        else [])) @
                    map row_values (expand cs (last_epic cs (Str []) pre) post)\<rparr>,
                 est, trk)"
    unfolding d e by (simp add: story_records_def story_record_def)
  have 3: "dataframeprocess pf \<lparr>columns = cs, rows = pre @ row # post\<rparr> =
            Inr (\<lparr>columns = output_columns,
                  rows = map row_values (expand cs (Str []) pre) @
                    [[Str ''Story'', Str [], last_epic cs (Str []) pre, cell cs row ''SUMMARY'',
                      cell cs row ''NOTES'', Str ''Server'', cell cs row ''SERV''],
                     [Str ''Story'', Str [], last_epic cs (Str []) pre, cell cs row ''SUMMARY'',
                      cell cs row ''NOTES'', Str ''iOS'', cell cs row ''IOS''],
                     [Str ''Story'', Str [], last_epic cs (Str []) pre, cell cs row ''SUMMARY'',
                      cell cs row ''NOTES'', Str ''Android'', cell cs row ''AND'']] @
                    map row_values (expand cs (last_epic cs (Str []) pre) post)\<rparr>,
                 est, trk)"
    if "notna (cell cs row ''SERV'') \<and> notna (cell cs row ''IOS'') \<and> notna (cell cs row ''AND'')"
    unfolding d e using that by (simp add: story_records_def story_record_def row_values_def)
  from 1 2 3 show ?thesis by blast
qed

theorem C4_story_expansion_witness:
  "\<exists>est trk. dataframeprocess (\<lambda>s. None) three_platform_table =
     Inr (\<lparr>columns = output_columns,
           rows = [[Str ''Epic'', Str ''E1'', Str [], Str ''s1'', NaN, Str [], Str []],
                   [Str ''Story'', Str [], Str ''E1'', Str ''story1'', Str ''n1'', Str ''Server'', Num 2],
                   [Str ''Story'', Str [], Str ''E1'', Str ''story1'', Str ''n1'', Str ''iOS'', Num 1],
                   [Str ''Story'', Str [], Str ''E1'', Str ''story1'', Str ''n1'', Str ''Android'', Num 3],
                   [Str ''Story'', Str [], Str ''E1'', Str ''story2'', NaN, Str ''Android'', Num 5]]\<rparr>,
          est, trk)"
proof -
  let ?cs = "[''EPIC'', ''SUMMARY'', ''IOS'', ''AND'', ''SERV'', ''NOTES'']"
  let ?pre = "[[Str ''E1'', Str ''s1'', NaN, NaN, NaN, NaN]]"
  let ?row = "[NaN, Str ''story1'', Num 1, Num 3, Num 2, Str ''n1'']"
  let ?post = "[[NaN, Str ''story2'', NaN, Num 5, NaN, NaN]]"
  have 1: "set required_cols \<subseteq> set ?cs" by (simp add: required_cols_def)
  have 2: "expander_ok (\<lambda>s. None) ?cs (Str []) (?pre @ ?row # ?post)"
    by (simp add: is_epic_row_def is_story_row_def row_parses_def parses_def py_float_def
        py_bool_def notna_def cell_def)
  have 3: "is_story_row ?cs ?row" by (simp add: is_story_row_def cell_def notna_def)
  have 4: "notna (cell ?cs ?row ''SERV'') \<and> notna (cell ?cs ?row ''IOS'') \<and> notna (cell ?cs ?row ''AND'')"
    by (simp add: cell_def notna_def)
  have t: "three_platform_table = \<lparr>columns = ?cs, rows = ?pre @ ?row # ?post\<rparr>"
    by (simp add: three_platform_table_def)
  from C4_story_expansion [OF 1 2 3, THEN conjunct2, THEN conjunct2, rule_format, OF 4]
  show ?thesis
    unfolding t
    by (simp add: is_epic_row_def is_story_row_def story_records_def story_record_def
        epic_record_def row_values_def notna_def cell_def)
qed

lemma iterrows_fails:
  assumes "keys_ok st" "\<not> expander_ok pf cs (current_epic_name st) rs"
  shows "\<exists>e. iterrows pf cs n rs st = Inl e"
  using assms
proof (induction rs arbitrary: n st)
  case Nil
  then show ?case by simp
next
  case (Cons r rs)
  show ?case
  proof (cases "process_row pf cs n r st")
    case (Inl e)
    then show ?thesis by simp
  next
    case (Inr st1)
    have c: "current_epic_name st1 = (if is_epic_row cs r then cell cs r ''EPIC'' else current_epic_name st)"
      using Inr unfolding process_row_cases [OF Cons.prems(1)] by (auto split: if_splits)
    have "is_story_row cs r \<Longrightarrow> \<not> is_epic_row cs r \<Longrightarrow>
        py_bool (current_epic_name st) \<and> row_parses pf cs r"
      using Inr unfolding process_row_cases [OF Cons.prems(1)] by (auto split: if_splits)
    then have "\<not> expander_ok pf cs (current_epic_name st1) rs"
      using Cons.prems(2) c by (auto split: if_splits)
    from Cons.IH [OF process_row_keys_ok [OF Cons.prems(1) Inr] this, of "Suc n"]
    show ?thesis using Inr by simp
  qed
qed

text \<open>On a table with the six required columns, \<^verbatim>\<open>dataframeprocess\<close> returns exactly when
  \<open>expander_ok\<close> holds, and then its frame is the one \<open>expand\<close> describes.\<close>

lemma dataframeprocess_succeeds_iff:
  assumes "set required_cols \<subseteq> set cs"
  shows "(\<exists>x. dataframeprocess pf \<lparr>columns = cs, rows = rs\<rparr> = Inr x) \<longleftrightarrow>
         expander_ok pf cs (Str []) rs"
proof
  assume "expander_ok pf cs (Str []) rs"
  from dataframeprocess_total [OF assms this] show "\<exists>x. dataframeprocess pf \<lparr>columns = cs, rows = rs\<rparr> = Inr x"
    by blast
next
  assume a: "\<exists>x. dataframeprocess pf \<lparr>columns = cs, rows = rs\<rparr> = Inr x"
  show "expander_ok pf cs (Str []) rs"
  proof (rule ccontr)
    assume "\<not> expander_ok pf cs (Str []) rs"
    then have "\<not> expander_ok pf cs (current_epic_name initial_state) rs"
      by (simp add: initial_state_def)
    from iterrows_fails [OF keys_ok_initial this, of 0] obtain e where
      "iterrows pf cs 0 rs initial_state = Inl e" by blast
    then have "dataframeprocess pf \<lparr>columns = cs, rows = rs\<rparr> = Inl e"
      using assms by (simp add: dataframeprocess_def)
    with a show False by simp
  qed
qed

lemma row_parses_bad_cell:
  assumes "\<not> row_parses pf cs row"
  shows "\<exists>c\<in>{''SERV'', ''IOS'', ''AND''}. notna (cell cs row c) \<and>
           py_float pf (cell cs row c) = Inl InvalidEstimateError"
proof -
  from assms obtain c where c: "c \<in> {''SERV'', ''IOS'', ''AND''}" "notna (cell cs row c)"
    "\<not> parses pf (cell cs row c)"
    unfolding row_parses_def by blast
  then have "py_float pf (cell cs row c) = Inl InvalidEstimateError"
    by (simp add: py_float_cases)
  with c show ?thesis by blast
qed

lemma iterrows_first_failure:
  assumes "keys_ok st" "j < length rs" "is_story_row cs (rs ! j)" "\<not> row_parses pf cs (rs ! j)"
  shows "\<exists>k\<le>j. \<exists>st'.
           iterrows pf cs n (take k rs) st = Inr st' \<and>
           is_story_row cs (rs ! k) \<and>
           (py_bool (current_epic_name st') \<longrightarrow> \<not> row_parses pf cs (rs ! k)) \<and>
           iterrows pf cs n rs st =
             Inl (if py_bool (current_epic_name st') then InvalidEstimateError
                  else OrphanStoryError (n + k))"
  using assms
proof (induction rs arbitrary: j n st)
  case Nil
  then show ?case by simp
next
  case (Cons r rs)
  show ?case
  proof (cases "process_row pf cs n r st")
    case (Inl err)
    then have "is_story_row cs r \<and> (py_bool (current_epic_name st) \<longrightarrow> \<not> row_parses pf cs r) \<and>
        err = (if py_bool (current_epic_name st) then InvalidEstimateError else OrphanStoryError n)"
      unfolding process_row_cases [OF Cons.prems(1)] by (auto split: if_splits)
    with Inl show ?thesis by (intro exI [of _ 0] exI [of _ st]) simp
  next
    case (Inr st1)
    have "j \<noteq> 0"
    proof
      assume "j = 0"
      then have "is_story_row cs r" "\<not> row_parses pf cs r" using Cons.prems by auto
      moreover have "\<not> is_epic_row cs r"
        using \<open>is_story_row cs r\<close> by (simp add: is_story_row_def is_epic_row_def)
      ultimately show False
        using Inr unfolding process_row_cases [OF Cons.prems(1)] by (auto split: if_splits)
    qed
    then obtain j' where j: "j = Suc j'" by (cases j) auto
    have pre: "j' < length rs" "is_story_row cs (rs ! j')" "\<not> row_parses pf cs (rs ! j')"
      using Cons.prems j by auto
    from Cons.IH [OF process_row_keys_ok [OF Cons.prems(1) Inr] pre, of "Suc n"]
    obtain k st' where k: "k \<le> j'"
      "iterrows pf cs (Suc n) (take k rs) st1 = Inr st'"
      "is_story_row cs (rs ! k)"
      "py_bool (current_epic_name st') \<longrightarrow> \<not> row_parses pf cs (rs ! k)"
      "iterrows pf cs (Suc n) rs st1 =
         Inl (if py_bool (current_epic_name st') then InvalidEstimateError
              else OrphanStoryError (Suc n + k))"
      by blast
    show ?thesis
      using k j Inr by (intro exI [of _ "Suc k"] exI [of _ st']) simp
  qed
qed

text \<open>
  Claim C7, as the code has it.  Let the table have the six required columns, and let row \<open>j\<close>
  be a Story row with a platform cell (\<^verbatim>\<open>SERV\<close>, \<^verbatim>\<open>IOS\<close> or \<^verbatim>\<open>AND\<close>) that is present and
  that \<^verbatim>\<open>float\<close> rejects.  Then \<^verbatim>\<open>dataframeprocess\<close> raises, and so does every run of the
  pipeline whose cleaned table is this one: there is no output.  The loop stops at a Story
  row \<open>k\<close> at or before \<open>j\<close>, the first row it cannot process: the rows before \<open>k\<close> are
  processed without error and leave the current epic name \<open>last_epic\<close> of these rows.  When
  that name is false (no Epic row before \<open>k\<close>, or the last one named by the empty string or
  zero) the error is the orphan-story error of row \<open>k\<close>; otherwise row \<open>k\<close> has a present
  platform cell that \<^verbatim>\<open>float\<close> rejects and the error is the invalid estimate error.
\<close>

theorem C7_invalid_estimate:
  assumes "set required_cols \<subseteq> set (columns data)"
    and "j < length (rows data)" "is_story_row (columns data) (rows data ! j)"
    and "col \<in> {''SERV'', ''IOS'', ''AND''}" "notna (cell (columns data) (rows data ! j) col)"
    and "py_float pf (cell (columns data) (rows data ! j) col) = Inl InvalidEstimateError"
  shows "\<exists>k\<le>j. \<exists>st.
           iterrows pf (columns data) 0 (take k (rows data)) initial_state = Inr st \<and>
           current_epic_name st = last_epic (columns data) (Str []) (take k (rows data)) \<and>
           is_story_row (columns data) (rows data ! k) \<and>
           (py_bool (current_epic_name st) \<longrightarrow>
              (\<exists>c\<in>{''SERV'', ''IOS'', ''AND''}. notna (cell (columns data) (rows data ! k) c) \<and>
                 py_float pf (cell (columns data) (rows data ! k) c) = Inl InvalidEstimateError)) \<and>
           dataframeprocess pf data =
             Inl (if py_bool (current_epic_name st) then InvalidEstimateError
                  else OrphanStoryError k) \<and>
           (\<forall>raw. preprocess raw = Inr data \<longrightarrow>
              preprocess_file rnd pf raw =
                Inl (if py_bool (current_epic_name st) then InvalidEstimateError
                     else OrphanStoryError k))"
proof -
  let ?cs = "columns data"
  have bad: "\<not> row_parses pf ?cs (rows data ! j)"
    using row_parses_bad [OF assms(4-6)] .
  from iterrows_first_failure [OF keys_ok_initial assms(2,3) bad, of 0] obtain k st where
    k: "k \<le> j" "iterrows pf ?cs 0 (take k (rows data)) initial_state = Inr st"
      "is_story_row ?cs (rows data ! k)"
      "py_bool (current_epic_name st) \<longrightarrow> \<not> row_parses pf ?cs (rows data ! k)"
      "iterrows pf ?cs 0 (rows data) initial_state =
         Inl (if py_bool (current_epic_name st) then InvalidEstimateError else OrphanStoryError k)"
    by auto
  have c: "current_epic_name st = last_epic ?cs (Str []) (take k (rows data))"
    using iterrows_current [OF keys_ok_initial k(2)] by (simp add: initial_state_def)
  have b: "py_bool (current_epic_name st) \<longrightarrow>
      (\<exists>c\<in>{''SERV'', ''IOS'', ''AND''}. notna (cell ?cs (rows data ! k) c) \<and>
         py_float pf (cell ?cs (rows data ! k) c) = Inl InvalidEstimateError)"
    using k(4) row_parses_bad_cell by blast
  have d: "dataframeprocess pf data =
      Inl (if py_bool (current_epic_name st) then InvalidEstimateError else OrphanStoryError k)"
    using assms(1) k(5) by (simp add: dataframeprocess_def)
  then have p: "\<forall>raw. preprocess raw = Inr data \<longrightarrow>
      preprocess_file rnd pf raw =
        Inl (if py_bool (current_epic_name st) then InvalidEstimateError else OrphanStoryError k)"
    by (simp add: preprocess_file_def)
  from k(1,2,3) c b d p show ?thesis by blast
qed

lemma preprocess_late_epic_input:
  "preprocess late_epic_input =
     Inr \<lparr>columns = [''EPIC'', ''SUMMARY'', ''IOS'', ''AND'', ''SERV'', ''NOTES''],
          rows = [[NaN, NaN, NaN, NaN, NaN, Str ''note''],
                  [Str ''E1'', Str ''s1'', NaN, NaN, NaN, NaN],
                  [NaN, Str ''story1'', NaN, NaN, Str ''abc'', NaN]]\<rparr>"
  by (simp add: late_epic_input_def stage1_defs)

theorem C7_invalid_estimate_witness:
  "preprocess_file round (\<lambda>s. None) late_epic_input = Inl InvalidEstimateError"
proof -
  let ?cs = "[''EPIC'', ''SUMMARY'', ''IOS'', ''AND'', ''SERV'', ''NOTES'']"
  let ?rs = "[[NaN, NaN, NaN, NaN, NaN, Str ''note''],
              [Str ''E1'', Str ''s1'', NaN, NaN, NaN, NaN],
              [NaN, Str ''story1'', NaN, NaN, Str ''abc'', NaN]]"
  let ?d = "\<lparr>columns = ?cs, rows = ?rs\<rparr>"
  have 1: "set required_cols \<subseteq> set (columns ?d)" by (simp add: required_cols_def)
  have 2: "2 < length (rows ?d)" by simp
  have 3: "is_story_row (columns ?d) (rows ?d ! 2)"
    by (simp add: is_story_row_def cell_def notna_def)
  have 4: "''SERV'' \<in> {''SERV'', ''IOS'', ''AND''}" by simp
  have 5: "notna (cell (columns ?d) (rows ?d ! 2) ''SERV'')"
    by (simp add: cell_def notna_def)
  have 6: "py_float (\<lambda>s. None) (cell (columns ?d) (rows ?d ! 2) ''SERV'') = Inl InvalidEstimateError"
    by (simp add: cell_def py_float_def)
  let ?Q = "\<lambda>k st.
      iterrows (\<lambda>s. None) (columns ?d) 0 (take k (rows ?d)) initial_state = Inr st \<and>
      current_epic_name st = last_epic (columns ?d) (Str []) (take k (rows ?d)) \<and>
      is_story_row (columns ?d) (rows ?d ! k) \<and>
      (py_bool (current_epic_name st) \<longrightarrow>
         (\<exists>c\<in>{''SERV'', ''IOS'', ''AND''}. notna (cell (columns ?d) (rows ?d ! k) c) \<and>
            py_float (\<lambda>s. None) (cell (columns ?d) (rows ?d ! k) c) = Inl InvalidEstimateError)) \<and>
      dataframeprocess (\<lambda>s. None) ?d =
        Inl (if py_bool (current_epic_name st) then InvalidEstimateError else OrphanStoryError k) \<and>
      (\<forall>raw. preprocess raw = Inr ?d \<longrightarrow>
         preprocess_file round (\<lambda>s. None) raw =
           Inl (if py_bool (current_epic_name st) then InvalidEstimateError
                else OrphanStoryError k))"
  have "\<exists>k\<le>2. \<exists>st. ?Q k st"
    by (rule C7_invalid_estimate [OF 1 2 3 4 5 6, of round])
  then obtain k where kk: "k \<le> 2 \<and> (\<exists>st. ?Q k st)" ..
  from kk have k2: "k \<le> 2" by (rule conjunct1)
  from kk have "\<exists>st. ?Q k st" by (rule conjunct2)
  then obtain st where q: "?Q k st" ..
  from q have q2: "current_epic_name st = last_epic (columns ?d) (Str []) (take k (rows ?d))"
    by (rule conjunct2 [THEN conjunct1])
  from q have q3: "is_story_row (columns ?d) (rows ?d ! k)"
    by (rule conjunct2 [THEN conjunct2, THEN conjunct1])
  from q have q6: "\<forall>raw. preprocess raw = Inr ?d \<longrightarrow>
         preprocess_file round (\<lambda>s. None) raw =
           Inl (if py_bool (current_epic_name st) then InvalidEstimateError
                else OrphanStoryError k)"
    by (rule conjunct2 [THEN conjunct2, THEN conjunct2, THEN conjunct2, THEN conjunct2])
  have n: "\<not> is_story_row ?cs (?rs ! 0)" "\<not> is_story_row ?cs (?rs ! 1)"
    by (simp_all add: is_story_row_def cell_def notna_def)
  have q3': "is_story_row ?cs (?rs ! k)" using q3 by (simp only: frame.select_convs)
  have "k = 2"
  proof (rule ccontr)
    assume "k \<noteq> 2"
    with k2 have "k = 0 \<or> k = 1" by arith
    with q3' n show False by blast
  qed
  have q2': "current_epic_name st = last_epic ?cs (Str []) (take k ?rs)"
    using q2 by (simp only: frame.select_convs)
  have "last_epic ?cs (Str []) (take 2 ?rs) = Str ''E1''"
    by (simp add: is_epic_row_def cell_def notna_def)
  then have "current_epic_name st = Str ''E1''"
    using q2' \<open>k = 2\<close> by (simp only:)
  then have b: "py_bool (current_epic_name st)" by (simp add: py_bool_def)
  have "preprocess_file round (\<lambda>s. None) late_epic_input =
      Inl (if py_bool (current_epic_name st) then InvalidEstimateError else OrphanStoryError k)"
    using q6 [rule_format, OF preprocess_late_epic_input] .
  then show ?thesis by (simp only: b if_True)
qed

section \<open>The sum of an epic (C1)\<close>

lemma map_err_all_Inr:
  "\<forall>x\<in>set xs. f x = Inr (g x) \<Longrightarrow> map_err f xs = Inr (map g xs)"
  by (induction xs) simp_all

lemma zip_map_same: "zip xs (map f xs) = map (\<lambda>x. (x, f x)) xs"
  by (induction xs) simp_all




























lemma dataframeprocess_state:
  assumes "dataframeprocess pf data = Inr (fd, est, trk)"
  obtains st where "iterrows pf (columns data) 0 (rows data) initial_state = Inr st"
    "fd = concat_final (data_rows st)" "est = epic_estimates st" "trk = epic_components_tracker st"
  using assms by (auto simp: dataframeprocess_def bind_err_Inr_iff split: if_splits)










section \<open>Aggregates keyed by the epic name (C9)\<close>






end
